theory Spec2Isabelle
  imports Complex_Main
begin

section \<open>JavaScript numbers\<close>

text \<open>
  The program computes with JavaScript numbers. A finite number is modelled by the real it
  denotes, and arithmetic on finite numbers is exact: the rounding of IEEE doubles, the
  rounding to 32 bits on a store into a \<^verbatim>\<open>Float32Array\<close>, and the sign of zero are
  not modelled here. The rounding of doubles is added in a section of its own below, for
  the functions whose results turn on it. The three non-finite values, and the rules by which arithmetic produces and
  propagates them, are modelled: \<^verbatim>\<open>0/0\<close> is \<open>NaN\<close>, \<^verbatim>\<open>1/0\<close> is \<open>PInf\<close>, every
  comparison with \<open>NaN\<close> is false. A read of \<^verbatim>\<open>undefined\<close> that is used in arithmetic
  is \<open>NaN\<close>.
\<close>

datatype jsnum = Fin real | PInf | NInf | NaN

fun jadd :: "jsnum \<Rightarrow> jsnum \<Rightarrow> jsnum" where
  "jadd (Fin a) (Fin b) = Fin (a + b)"
| "jadd NaN _ = NaN"
| "jadd _ NaN = NaN"
| "jadd PInf NInf = NaN"
| "jadd NInf PInf = NaN"
| "jadd PInf _ = PInf"
| "jadd _ PInf = PInf"
| "jadd NInf _ = NInf"
| "jadd _ NInf = NInf"

fun jneg :: "jsnum \<Rightarrow> jsnum" where
  "jneg (Fin a) = Fin (- a)"
| "jneg PInf = NInf"
| "jneg NInf = PInf"
| "jneg NaN = NaN"

definition jsub :: "jsnum \<Rightarrow> jsnum \<Rightarrow> jsnum" where
  "jsub a b = jadd a (jneg b)"

text \<open>The sign of a number that is not \<open>NaN\<close>: \<open>-1\<close>, \<open>0\<close> or \<open>1\<close>.\<close>

fun jsign :: "jsnum \<Rightarrow> real" where
  "jsign (Fin a) = sgn a"
| "jsign PInf = 1"
| "jsign NInf = - 1"
| "jsign NaN = 0"

definition inf_of_sign :: "real \<Rightarrow> jsnum" where
  "inf_of_sign s = (if s > 0 then PInf else if s < 0 then NInf else NaN)"

fun jmul :: "jsnum \<Rightarrow> jsnum \<Rightarrow> jsnum" where
  "jmul (Fin a) (Fin b) = Fin (a * b)"
| "jmul NaN _ = NaN"
| "jmul _ NaN = NaN"
| "jmul a b = inf_of_sign (jsign a * jsign b)"

fun jdiv :: "jsnum \<Rightarrow> jsnum \<Rightarrow> jsnum" where
  "jdiv (Fin a) (Fin b) = (if b \<noteq> 0 then Fin (a / b) else inf_of_sign (sgn a))"
| "jdiv NaN _ = NaN"
| "jdiv _ NaN = NaN"
| "jdiv (Fin a) _ = Fin 0"
| "jdiv a (Fin b) = (if b < 0 then jneg a else a)"
| "jdiv _ _ = NaN"

fun jsqrt :: "jsnum \<Rightarrow> jsnum" where
  "jsqrt (Fin a) = (if a < 0 then NaN else Fin (sqrt a))"
| "jsqrt PInf = PInf"
| "jsqrt NInf = NaN"
| "jsqrt NaN = NaN"

text \<open>\<^verbatim>\<open>v ** 2\<close>\<close>

definition jsquare :: "jsnum \<Rightarrow> jsnum" where
  "jsquare v = jmul v v"

text \<open>\<^verbatim>\<open>a > b\<close>, \<^verbatim>\<open>a < b\<close> and \<^verbatim>\<open>a === b\<close>\<close>

fun jgt :: "jsnum \<Rightarrow> jsnum \<Rightarrow> bool" where
  "jgt (Fin a) (Fin b) = (a > b)"
| "jgt NaN _ = False"
| "jgt _ NaN = False"
| "jgt _ PInf = False"
| "jgt PInf _ = True"
| "jgt NInf _ = False"
| "jgt _ NInf = True"

definition jlt :: "jsnum \<Rightarrow> jsnum \<Rightarrow> bool" where
  "jlt a b = jgt b a"

definition jeq :: "jsnum \<Rightarrow> jsnum \<Rightarrow> bool" where
  "jeq a b = (a \<noteq> NaN \<and> a = b)"

text \<open>Truthiness of a number, and \<^verbatim>\<open>a || b\<close> on numbers.\<close>

definition truthy :: "jsnum \<Rightarrow> bool" where
  "truthy a = (a \<noteq> NaN \<and> a \<noteq> Fin 0)"

definition jor :: "jsnum \<Rightarrow> jsnum \<Rightarrow> jsnum" where
  "jor a b = (if truthy a then a else b)"

text \<open>\<^verbatim>\<open>Number.isInteger\<close>\<close>

fun Number_isInteger :: "jsnum \<Rightarrow> bool" where
  "Number_isInteger (Fin a) = (of_int \<lfloor>a\<rfloor> = a)"
| "Number_isInteger _ = False"

fun is_finite :: "jsnum \<Rightarrow> bool" where
  "is_finite (Fin a) = True"
| "is_finite _ = False"

fun the_real :: "jsnum \<Rightarrow> real" where
  "the_real (Fin a) = a"
| "the_real _ = 0"

text \<open>
  An indexed read \<^verbatim>\<open>b[i]\<close> of an array of numbers whose value goes into arithmetic:
  out of range the read gives \<^verbatim>\<open>undefined\<close>, which arithmetic turns into \<open>NaN\<close>.
\<close>

definition num_at :: "jsnum list \<Rightarrow> nat \<Rightarrow> jsnum" where
  "num_at b i = (if i < length b then b ! i else NaN)"

section \<open>embeddings.js\<close>

record vocabData =
  words :: "string list"
  vectors :: "jsnum list"
  dims :: nat

text \<open>
  The answer of \<^verbatim>\<open>fetch\<close>, with the body already decoded: the word list of
  \<^verbatim>\<open>vocab.json\<close>, or the 32-bit floats of \<^verbatim>\<open>embeddings.bin\<close>. A file
  whose length in bytes is not a multiple of 4, on which \<^verbatim>\<open>new Float32Array(buf)\<close>
  throws, has no list of floats and is outside the model.
\<close>

record 'a response =
  ok :: bool
  body :: 'a

datatype load_error = VocabNotLoaded | EmbeddingsNotLoaded | DimensionMismatch

text \<open>
  \<^verbatim>\<open>loadVocabulary\<close>. The progress callback and the console line have no part in the
  result and are left out. \<^verbatim>\<open>dims\<close> is the quotient of the two lengths as a number;
  once it has passed \<^verbatim>\<open>Number.isInteger\<close> it is a natural number.
\<close>

definition loadVocabulary ::
  "string list response \<Rightarrow> jsnum list response \<Rightarrow> load_error + vocabData" where
  "loadVocabulary vocabResp binResp =
    (if \<not> ok vocabResp then Inl VocabNotLoaded
     else let ws = body vocabResp in
       if \<not> ok binResp then Inl EmbeddingsNotLoaded
       else let vs = body binResp;
                d = jdiv (Fin (real (length vs))) (Fin (real (length ws)))
            in if \<not> Number_isInteger d then Inl DimensionMismatch
               else Inr \<lparr>words = ws, vectors = vs, dims = nat \<lfloor>the_real d\<rfloor>\<rparr>)"

text \<open>
  \<^verbatim>\<open>cosineSimilarity\<close>: one pass over the indices of \<open>a\<close> with the three running sums.
\<close>

definition cosineStep :: "jsnum list \<Rightarrow> jsnum list \<Rightarrow> nat \<Rightarrow> jsnum \<times> jsnum \<times> jsnum \<Rightarrow> jsnum \<times> jsnum \<times> jsnum" where
  "cosineStep a b i acc =
    (case acc of (dot, magA, magB) \<Rightarrow>
      (jadd dot (jmul (num_at a i) (num_at b i)),
       jadd magA (jmul (num_at a i) (num_at a i)),
       jadd magB (jmul (num_at b i) (num_at b i))))"

definition cosineSimilarity :: "jsnum list \<Rightarrow> jsnum list \<Rightarrow> jsnum" where
  "cosineSimilarity a b =
    (case fold (cosineStep a b) [0..<length a] (Fin 0, Fin 0, Fin 0) of
      (dot, magA, magB) \<Rightarrow>
        let magA' = jsqrt magA; magB' = jsqrt magB
        in if jeq magA' (Fin 0) \<or> jeq magB' (Fin 0) then Fin 0
           else jdiv dot (jmul magA' magB'))"

text \<open>
  \<^verbatim>\<open>getVector\<close>: \<^verbatim>\<open>subarray(start, start + dims)\<close> clamps both ends to the array.
\<close>

definition getVector :: "nat \<Rightarrow> jsnum list \<Rightarrow> nat \<Rightarrow> jsnum list" where
  "getVector index vs d = (let start = index * d in take d (drop start vs))"

section \<open>projection.js\<close>

text \<open>
  A JavaScript string is modelled by the list of its code units; a code unit is a
  \<^typ>\<open>char\<close>, so the model covers the code units below 256.
  \<^verbatim>\<open>WORD_RE = /^[a-z]{3,15}$/\<close>: the whole string is 3 to 15 characters, each in
  the range \<^verbatim>\<open>a\<close> to \<^verbatim>\<open>z\<close>.
\<close>

definition is_a_to_z :: "char \<Rightarrow> bool" where
  "is_a_to_z c = (97 \<le> (of_char c :: nat) \<and> (of_char c :: nat) \<le> 122)"

definition WORD_RE_test :: "string \<Rightarrow> bool" where
  "WORD_RE_test s = (3 \<le> length s \<and> length s \<le> 15 \<and> list_all is_a_to_z s)"

definition isQualityWord :: "string \<Rightarrow> bool" where
  "isQualityWord w = WORD_RE_test w"

text \<open>The six roles, for the axis vectors and for the axis words alike.\<close>

record 'a axes =
  xPos :: 'a
  xNeg :: 'a
  yPos :: 'a
  yNeg :: 'a
  zPos :: 'a
  zNeg :: 'a

record selection =
  indices :: "nat list"
  magnitudes :: "jsnum list"

text \<open>
  The difference of the two cosine similarities of one axis, and the three of them for
  the vector of a vocabulary word: the \<^verbatim>\<open>dx\<close>, \<^verbatim>\<open>dy\<close>, \<^verbatim>\<open>dz\<close> of
  \<^verbatim>\<open>selectWordsForAxes\<close>, and the \<^verbatim>\<open>x\<close>, \<^verbatim>\<open>y\<close>, \<^verbatim>\<open>z\<close> of the first
  pass of \<^verbatim>\<open>projectWords\<close>.
\<close>

definition axisDiff :: "jsnum list \<Rightarrow> jsnum list \<Rightarrow> jsnum list \<Rightarrow> jsnum" where
  "axisDiff vec pos neg = jsub (cosineSimilarity vec pos) (cosineSimilarity vec neg)"

text \<open>
  The first loop of \<^verbatim>\<open>selectWordsForAxes\<close>: the magnitude that it computes for a
  word that it does not skip, and the score that it stores at index \<open>i\<close>. The counter
  \<^verbatim>\<open>filtered\<close> only goes to the console and is left out.
\<close>

definition relevanceMagnitude :: "vocabData \<Rightarrow> jsnum list axes \<Rightarrow> nat \<Rightarrow> jsnum" where
  "relevanceMagnitude vocab axisVectors i =
    (let vec = getVector i (vectors vocab) (dims vocab);
         dx = axisDiff vec (xPos axisVectors) (xNeg axisVectors);
         dy = axisDiff vec (yPos axisVectors) (yNeg axisVectors);
         dz = axisDiff vec (zPos axisVectors) (zNeg axisVectors)
     in jsqrt (jadd (jadd (jmul dx dx) (jmul dy dy)) (jmul dz dz)))"

definition wordMag :: "vocabData \<Rightarrow> jsnum list axes \<Rightarrow> string set \<Rightarrow> nat \<Rightarrow> jsnum" where
  "wordMag vocab axisVectors axisWords i =
    (if words vocab ! i \<in> axisWords \<or> \<not> isQualityWord (words vocab ! i) then Fin (- 1)
     else relevanceMagnitude vocab axisVectors i)"

text \<open>
  \<^verbatim>\<open>Array.prototype.sort\<close> with a comparator is stable, and puts \<open>a\<close> after \<open>b\<close>
  only when the comparator's value at \<open>(a, b)\<close> is positive (a \<open>NaN\<close> counts as 0).
  With a consistent comparator the sorted array is determined, and the stable insertion
  sort below computes it. With an inconsistent one (a \<open>NaN\<close> among the scores) the order
  is left to the implementation; the model then fixes one order, of which the theorems
  on the selection use only that it is a rearrangement of the indices.
\<close>

fun insertBy :: "('a \<Rightarrow> 'a \<Rightarrow> jsnum) \<Rightarrow> 'a \<Rightarrow> 'a list \<Rightarrow> 'a list" where
  "insertBy cmp a [] = [a]"
| "insertBy cmp a (b # bs) =
    (if jgt (cmp a b) (Fin 0) then b # insertBy cmp a bs else a # b # bs)"

definition sortBy :: "('a \<Rightarrow> 'a \<Rightarrow> jsnum) \<Rightarrow> 'a list \<Rightarrow> 'a list" where
  "sortBy cmp xs = foldr (insertBy cmp) xs []"

text \<open>
  The last loop of \<^verbatim>\<open>selectWordsForAxes\<close>: it walks the sorted indices while fewer
  than \<open>topK\<close> are selected, and keeps an index whose score is positive. The cap
  \<open>topK\<close> is a number of words, a natural number.
\<close>

fun takeTop :: "jsnum list \<Rightarrow> nat \<Rightarrow> nat list \<Rightarrow> nat list \<Rightarrow> nat list" where
  "takeTop mags topK [] selected = selected"
| "takeTop mags topK (i # rest) selected =
    (if length selected < topK
     then (if jgt (num_at mags i) (Fin 0) then takeTop mags topK rest (selected @ [i])
           else takeTop mags topK rest selected)
     else selected)"

definition selectWordsForAxes ::
  "vocabData \<Rightarrow> jsnum list axes \<Rightarrow> string set \<Rightarrow> nat \<Rightarrow> selection" where
  "selectWordsForAxes vocab axisVectors axisWords topK =
    (let n = length (words vocab);
         mags = map (wordMag vocab axisVectors axisWords) [0..<n];
         sortedIndices = sortBy (\<lambda>a b. jsub (num_at mags b) (num_at mags a)) [0..<n]
     in \<lparr>indices = takeTop mags topK sortedIndices [], magnitudes = mags\<rparr>)"

text \<open>
  A placed word: \<^verbatim>\<open>{ word, x, y, z }\<close>. The word of a projected word is
  \<^verbatim>\<open>words[idx]\<close>, which is \<^verbatim>\<open>undefined\<close> (\<open>None\<close>) out of range.
\<close>

record 'w placed =
  word :: 'w
  x :: jsnum
  y :: jsnum
  z :: jsnum

record projected = "string option placed" +
  magnitude :: jsnum

record beacon = "string placed" +
  axis :: string

definition word_at :: "string list \<Rightarrow> nat \<Rightarrow> string option" where
  "word_at ws idx = (if idx < length ws then Some (ws ! idx) else None)"

text \<open>The first pass of \<^verbatim>\<open>projectWords\<close>.\<close>

definition rawPosition :: "vocabData \<Rightarrow> jsnum list axes \<Rightarrow> nat \<Rightarrow> string option placed" where
  "rawPosition vocab axisVectors idx =
    (let vec = getVector idx (vectors vocab) (dims vocab)
     in \<lparr>word = word_at (words vocab) idx,
         x = axisDiff vec (xPos axisVectors) (xNeg axisVectors),
         y = axisDiff vec (yPos axisVectors) (yNeg axisVectors),
         z = axisDiff vec (zPos axisVectors) (zNeg axisVectors)\<rparr>)"

text \<open>The inner function \<^verbatim>\<open>stddev\<close> of \<^verbatim>\<open>projectWords\<close>.\<close>

definition stddev_mean :: "jsnum list \<Rightarrow> jsnum" where
  "stddev_mean values = jdiv (foldl jadd (Fin 0) values) (Fin (real (length values)))"

definition stddev_variance :: "jsnum list \<Rightarrow> jsnum" where
  "stddev_variance values =
    jdiv (foldl (\<lambda>a v. jadd a (jsquare (jsub v (stddev_mean values)))) (Fin 0) values)
         (Fin (real (length values)))"

definition stddev :: "jsnum list \<Rightarrow> jsnum" where
  "stddev values = jor (jsqrt (stddev_variance values)) (Fin 1)"

text \<open>The second pass of \<^verbatim>\<open>projectWords\<close>, for one raw position.\<close>

definition normalizeWord ::
  "jsnum \<Rightarrow> jsnum \<Rightarrow> jsnum \<Rightarrow> jsnum \<Rightarrow> string option placed \<Rightarrow> projected" where
  "normalizeWord sdX sdY sdZ scale w =
    \<lparr>word = word w,
     x = jmul (jdiv (x w) sdX) scale,
     y = jmul (jdiv (y w) sdY) scale,
     z = jmul (jdiv (z w) sdZ) scale,
     magnitude = jsqrt (jadd (jadd (jsquare (jdiv (x w) sdX)) (jsquare (jdiv (y w) sdY)))
                             (jsquare (jdiv (z w) sdZ)))\<rparr>"

definition projectWords ::
  "vocabData \<Rightarrow> jsnum list axes \<Rightarrow> nat list \<Rightarrow> jsnum \<Rightarrow> projected list" where
  "projectWords vocab axisVectors selectedIndices scale =
    (let raw = map (rawPosition vocab axisVectors) selectedIndices;
         sdX = stddev (map x raw);
         sdY = stddev (map y raw);
         sdZ = stddev (map z raw)
     in map (normalizeWord sdX sdY sdZ scale) raw)"

text \<open>
  \<^verbatim>\<open>getBeaconPositions\<close>: the six running extremes, in the order of their declaration
  \<^verbatim>\<open>maxX, minX, maxY, minY, maxZ, minZ\<close>, each starting at 0.
\<close>

type_synonym extremes = "jsnum \<times> jsnum \<times> jsnum \<times> jsnum \<times> jsnum \<times> jsnum"

definition extremesStep :: "projected \<Rightarrow> extremes \<Rightarrow> extremes" where
  "extremesStep w e =
    (case e of (maxX, minX, maxY, minY, maxZ, minZ) \<Rightarrow>
      (if jgt (x w) maxX then x w else maxX,
       if jlt (x w) minX then x w else minX,
       if jgt (y w) maxY then y w else maxY,
       if jlt (y w) minY then y w else minY,
       if jgt (z w) maxZ then z w else maxZ,
       if jlt (z w) minZ then z w else minZ))"

definition extremesOf :: "projected list \<Rightarrow> extremes" where
  "extremesOf projectedWords =
    fold extremesStep projectedWords (Fin 0, Fin 0, Fin 0, Fin 0, Fin 0, Fin 0)"

definition pad :: jsnum where
  "pad = Fin 1.2"

definition getBeaconPositions :: "string axes \<Rightarrow> projected list \<Rightarrow> beacon list" where
  "getBeaconPositions axs projectedWords =
    (case extremesOf projectedWords of (maxX, minX, maxY, minY, maxZ, minZ) \<Rightarrow>
      [\<lparr>word = xNeg axs, x = jmul minX pad, y = Fin 0, z = Fin 0, axis = ''x-''\<rparr>,
       \<lparr>word = xPos axs, x = jmul maxX pad, y = Fin 0, z = Fin 0, axis = ''x+''\<rparr>,
       \<lparr>word = yPos axs, x = Fin 0, y = jmul maxY pad, z = Fin 0, axis = ''y+''\<rparr>,
       \<lparr>word = yNeg axs, x = Fin 0, y = jmul minY pad, z = Fin 0, axis = ''y-''\<rparr>,
       \<lparr>word = zPos axs, x = Fin 0, y = Fin 0, z = jmul maxZ pad, axis = ''z+''\<rparr>,
       \<lparr>word = zNeg axs, x = Fin 0, y = Fin 0, z = jmul minZ pad, axis = ''z-''\<rparr>])"

section \<open>wordcloud.js\<close>

type_synonym vec3 = "jsnum \<times> jsnum \<times> jsnum"

text \<open>\<^verbatim>\<open>Vector3.distanceTo\<close> of three.js: the Euclidean distance of two points.\<close>

definition distanceTo :: "vec3 \<Rightarrow> vec3 \<Rightarrow> jsnum" where
  "distanceTo p q =
    (case p of (px, py, pz) \<Rightarrow> case q of (qx, qy, qz) \<Rightarrow>
      jsqrt (jadd (jadd (jsquare (jsub px qx)) (jsquare (jsub py qy))) (jsquare (jsub pz qz))))"

text \<open>
  What \<^verbatim>\<open>updateWordVisibility\<close> reads and writes of a sprite: its position, its
  \<^verbatim>\<open>visible\<close> flag, \<^verbatim>\<open>material.opacity\<close> and \<^verbatim>\<open>userData.baseOpacity\<close>.
\<close>

record sprite =
  position :: vec3
  visible :: bool
  opacity :: jsnum
  userBaseOpacity :: jsnum

record lodOptions =
  innerFade :: jsnum
  nearDistance :: jsnum
  farDistance :: jsnum
  cullDistance :: jsnum

definition defaultOptions :: lodOptions where
  "defaultOptions =
    \<lparr>innerFade = Fin 5, nearDistance = Fin 15, farDistance = Fin 150, cullDistance = Fin 250\<rparr>"

text \<open>The local \<^verbatim>\<open>baseOpacity\<close> of the loop body.\<close>

definition baseOpacity :: "sprite \<Rightarrow> jsnum" where
  "baseOpacity s = jor (userBaseOpacity s) (Fin 0.5)"

text \<open>
  The body of the loop of \<^verbatim>\<open>updateWordVisibility\<close> for one sprite; \<open>distance\<close> is
  the local \<^verbatim>\<open>dist\<close>, the distance of the sprite from the camera.
\<close>

definition classifySprite :: "lodOptions \<Rightarrow> jsnum \<Rightarrow> sprite \<Rightarrow> sprite" where
  "classifySprite opts distance s =
    (if jgt distance (cullDistance opts) then s\<lparr>visible := False\<rparr>
     else if jgt distance (farDistance opts) then
       (let fade = jsub (Fin 1) (jdiv (jsub distance (farDistance opts))
                                      (jsub (cullDistance opts) (farDistance opts)))
        in s\<lparr>visible := True, opacity := jmul (baseOpacity s) fade\<rparr>)
     else if jlt distance (innerFade opts) then
       s\<lparr>visible := True,
         opacity := jmul (jmul (baseOpacity s) (jdiv distance (innerFade opts))) (Fin 0.5)\<rparr>
     else if jlt distance (nearDistance opts) then
       (let fade = jdiv (jsub distance (innerFade opts))
                        (jsub (nearDistance opts) (innerFade opts))
        in s\<lparr>visible := True,
             opacity := jmul (baseOpacity s) (jadd (Fin 0.5) (jmul fade (Fin 0.5)))\<rparr>)
     else s\<lparr>visible := True, opacity := baseOpacity s\<rparr>)"

definition updateSprite :: "lodOptions \<Rightarrow> vec3 \<Rightarrow> sprite \<Rightarrow> sprite" where
  "updateSprite opts cameraPosition s =
    classifySprite opts (distanceTo (position s) cameraPosition) s"

definition updateWordVisibility :: "sprite list \<Rightarrow> vec3 \<Rightarrow> lodOptions \<Rightarrow> sprite list" where
  "updateWordVisibility children cameraPosition opts =
    map (updateSprite opts cameraPosition) children"

section \<open>main.js\<close>

text \<open>
  \<^verbatim>\<open>String.prototype.trim\<close> and \<^verbatim>\<open>toLowerCase\<close>, on code units below 256: the
  white space there is tab, line feed, vertical tab, form feed, carriage return, space and
  the no-break space; the letters with a lower case there are \<^verbatim>\<open>A\<close> to \<^verbatim>\<open>Z\<close> and
  the Latin-1 capitals 192 to 222 without the multiplication sign 215.
\<close>

definition isWhiteSpace :: "char \<Rightarrow> bool" where
  "isWhiteSpace c = ((of_char c :: nat) \<in> {9, 10, 11, 12, 13, 32, 160})"

definition trim :: "string \<Rightarrow> string" where
  "trim s = rev (dropWhile isWhiteSpace (rev (dropWhile isWhiteSpace s)))"

definition lowerChar :: "char \<Rightarrow> char" where
  "lowerChar c =
    (let n = (of_char c :: nat)
     in if (65 \<le> n \<and> n \<le> 90) \<or> (192 \<le> n \<and> n \<le> 222 \<and> n \<noteq> 215)
        then char_of (n + 32) else c)"

definition toLowerCase :: "string \<Rightarrow> string" where
  "toLowerCase s = map lowerChar s"

text \<open>
  The six text inputs of the setup form, by the identifier of their element, and what
  the click handler knows of the resources: whether \<^verbatim>\<open>vocabData\<close> is set and the
  flag \<^verbatim>\<open>modelReady\<close>.
\<close>

record form =
  left :: string
  right :: string
  up :: string
  down :: string
  forward :: string
  backward :: string

record resources =
  vocabLoaded :: bool
  modelReady :: bool

text \<open>The two messages that the handler writes before it returns early.\<close>

datatype launch_message = StillLoading | FillInAllWords

definition readAxes :: "form \<Rightarrow> string axes" where
  "readAxes f =
    \<lparr>xPos = toLowerCase (trim (right f)),
     xNeg = toLowerCase (trim (left f)),
     yPos = toLowerCase (trim (up f)),
     yNeg = toLowerCase (trim (down f)),
     zPos = toLowerCase (trim (forward f)),
     zNeg = toLowerCase (trim (backward f))\<rparr>"

text \<open>\<^verbatim>\<open>Object.entries(axes)\<close>, in the order in which the object literal sets the keys.\<close>

definition axesValues :: "'a axes \<Rightarrow> 'a list" where
  "axesValues a = [xNeg a, xPos a, yPos a, yNeg a, zPos a, zNeg a]"

text \<open>
  The click handler of the launch button up to its first call of \<^verbatim>\<open>embedWords\<close>:
  \<open>Inl\<close> is the message with which it returns early, \<open>Inr\<close> the list of words that it
  passes to \<^verbatim>\<open>embedWords\<close>, with which the embedding, selection and projection start.
\<close>

definition launch :: "resources \<Rightarrow> form \<Rightarrow> launch_message + string list" where
  "launch r f =
    (if \<not> vocabLoaded r \<or> \<not> modelReady r then Inl StillLoading
     else let a = readAxes f
          in if list_ex (\<lambda>w. w = []) (axesValues a) then Inl FillInAllWords
             else Inr [xPos a, xNeg a, yPos a, yNeg a, zPos a, zNeg a])"

text \<open>The set \<^verbatim>\<open>new Set(Object.values(axes))\<close> that the handler passes as the axis words.\<close>

definition axisWordSet :: "string axes \<Rightarrow> string set" where
  "axisWordSet a = set (axesValues a)"

section \<open>The rounding of doubles\<close>

text \<open>
  The definitions above compute with exact reals. Where a result of the program turns on
  the rounding of its arithmetic, the same functions are written once more with the
  rounding made explicit: \<open>rnd\<close> is applied to the result of every arithmetic operation.
  With the identity for \<open>rnd\<close> they are the functions above; with \<open>dbl\<close> they compute
  as the program does on IEEE doubles.

  \<open>roundDouble r\<close> is the double nearest to the real \<open>r\<close>: the multiple of the unit in the
  last place of the binade of \<open>r\<close> (53 significant bits, the exponent not below that of
  the subnormal numbers) that is nearest to \<open>r\<close>, the even one of two that are equally
  near, and an infinity from \<open>2 ^ 1024\<close> on. Every arithmetic operation of a double and
  \<^verbatim>\<open>Math.sqrt\<close> return the double nearest to the exact result.
\<close>

definition roundEven :: "real \<Rightarrow> int" where
  "roundEven q =
    (if frac q = 1 / 2 then (if even \<lfloor>q\<rfloor> then \<lfloor>q\<rfloor> else \<lfloor>q\<rfloor> + 1) else round q)"

definition ulpOf :: "real \<Rightarrow> real" where
  "ulpOf r = 2 powr real_of_int (max \<lfloor>log 2 \<bar>r\<bar>\<rfloor> (- 1022) - 52)"

definition roundDouble :: "real \<Rightarrow> jsnum" where
  "roundDouble r =
    (if r = 0 then Fin 0
     else let v = real_of_int (roundEven (r / ulpOf r)) * ulpOf r
          in if 2 ^ 1024 \<le> \<bar>v\<bar> then inf_of_sign (sgn r) else Fin v)"

fun dbl :: "jsnum \<Rightarrow> jsnum" where
  "dbl (Fin r) = roundDouble r"
| "dbl v = v"

text \<open>\<^verbatim>\<open>cosineSimilarity\<close>, \<^verbatim>\<open>projectWords\<close> and its \<^verbatim>\<open>stddev\<close>, with the rounding.\<close>

definition cosineStepR ::
  "(jsnum \<Rightarrow> jsnum) \<Rightarrow> jsnum list \<Rightarrow> jsnum list \<Rightarrow> nat \<Rightarrow> jsnum \<times> jsnum \<times> jsnum
    \<Rightarrow> jsnum \<times> jsnum \<times> jsnum" where
  "cosineStepR rnd a b i acc =
    (case acc of (dot, magA, magB) \<Rightarrow>
      (rnd (jadd dot (rnd (jmul (num_at a i) (num_at b i)))),
       rnd (jadd magA (rnd (jmul (num_at a i) (num_at a i)))),
       rnd (jadd magB (rnd (jmul (num_at b i) (num_at b i))))))"

definition cosineSimilarityR :: "(jsnum \<Rightarrow> jsnum) \<Rightarrow> jsnum list \<Rightarrow> jsnum list \<Rightarrow> jsnum" where
  "cosineSimilarityR rnd a b =
    (case fold (cosineStepR rnd a b) [0..<length a] (Fin 0, Fin 0, Fin 0) of
      (dot, magA, magB) \<Rightarrow>
        let magA' = rnd (jsqrt magA); magB' = rnd (jsqrt magB)
        in if jeq magA' (Fin 0) \<or> jeq magB' (Fin 0) then Fin 0
           else rnd (jdiv dot (rnd (jmul magA' magB'))))"

definition axisDiffR ::
  "(jsnum \<Rightarrow> jsnum) \<Rightarrow> jsnum list \<Rightarrow> jsnum list \<Rightarrow> jsnum list \<Rightarrow> jsnum" where
  "axisDiffR rnd vec pos neg =
    rnd (jsub (cosineSimilarityR rnd vec pos) (cosineSimilarityR rnd vec neg))"

definition rawPositionR ::
  "(jsnum \<Rightarrow> jsnum) \<Rightarrow> vocabData \<Rightarrow> jsnum list axes \<Rightarrow> nat \<Rightarrow> string option placed" where
  "rawPositionR rnd vocab axisVectors idx =
    (let vec = getVector idx (vectors vocab) (dims vocab)
     in \<lparr>word = word_at (words vocab) idx,
         x = axisDiffR rnd vec (xPos axisVectors) (xNeg axisVectors),
         y = axisDiffR rnd vec (yPos axisVectors) (yNeg axisVectors),
         z = axisDiffR rnd vec (zPos axisVectors) (zNeg axisVectors)\<rparr>)"

definition stddev_meanR :: "(jsnum \<Rightarrow> jsnum) \<Rightarrow> jsnum list \<Rightarrow> jsnum" where
  "stddev_meanR rnd values =
    rnd (jdiv (foldl (\<lambda>a b. rnd (jadd a b)) (Fin 0) values) (Fin (real (length values))))"

definition stddev_varianceR :: "(jsnum \<Rightarrow> jsnum) \<Rightarrow> jsnum list \<Rightarrow> jsnum" where
  "stddev_varianceR rnd values =
    rnd (jdiv (foldl (\<lambda>a v. rnd (jadd a (rnd (jsquare (rnd (jsub v (stddev_meanR rnd values)))))))
                 (Fin 0) values)
              (Fin (real (length values))))"

definition stddevR :: "(jsnum \<Rightarrow> jsnum) \<Rightarrow> jsnum list \<Rightarrow> jsnum" where
  "stddevR rnd values = jor (rnd (jsqrt (stddev_varianceR rnd values))) (Fin 1)"

definition normalizeWordR ::
  "(jsnum \<Rightarrow> jsnum) \<Rightarrow> jsnum \<Rightarrow> jsnum \<Rightarrow> jsnum \<Rightarrow> jsnum \<Rightarrow> string option placed \<Rightarrow> projected"
  where
  "normalizeWordR rnd sdX sdY sdZ scale w =
    \<lparr>word = word w,
     x = rnd (jmul (rnd (jdiv (x w) sdX)) scale),
     y = rnd (jmul (rnd (jdiv (y w) sdY)) scale),
     z = rnd (jmul (rnd (jdiv (z w) sdZ)) scale),
     magnitude =
       rnd (jsqrt (rnd (jadd (rnd (jadd (rnd (jsquare (rnd (jdiv (x w) sdX))))
                                        (rnd (jsquare (rnd (jdiv (y w) sdY))))))
                             (rnd (jsquare (rnd (jdiv (z w) sdZ)))))))\<rparr>"

definition projectWordsR ::
  "(jsnum \<Rightarrow> jsnum) \<Rightarrow> vocabData \<Rightarrow> jsnum list axes \<Rightarrow> nat list \<Rightarrow> jsnum \<Rightarrow> projected list"
  where
  "projectWordsR rnd vocab axisVectors selectedIndices scale =
    (let raw = map (rawPositionR rnd vocab axisVectors) selectedIndices;
         sdX = stddevR rnd (map x raw);
         sdY = stddevR rnd (map y raw);
         sdZ = stddevR rnd (map z raw)
     in map (normalizeWordR rnd sdX sdY sdZ scale) raw)"

section \<open>Notions for the statements\<close>

text \<open>
  The number of vocabulary words that pass the quality filter and are not an axis word,
  and the number of those among them whose relevance magnitude is positive.
\<close>

definition eligibleCount :: "vocabData \<Rightarrow> string set \<Rightarrow> nat" where
  "eligibleCount vocab axisWords =
    length (filter (\<lambda>w. w \<notin> axisWords \<and> isQualityWord w) (words vocab))"

definition positiveEligible :: "vocabData \<Rightarrow> jsnum list axes \<Rightarrow> string set \<Rightarrow> nat \<Rightarrow> bool" where
  "positiveEligible vocab axisVectors axisWords i =
    (words vocab ! i \<notin> axisWords \<and> isQualityWord (words vocab ! i)
     \<and> jgt (relevanceMagnitude vocab axisVectors i) (Fin 0))"

definition positiveCount :: "vocabData \<Rightarrow> jsnum list axes \<Rightarrow> string set \<Rightarrow> nat" where
  "positiveCount vocab axisVectors axisWords =
    length (filter (positiveEligible vocab axisVectors axisWords) [0..<length (words vocab)])"

text \<open>
  The extreme coordinate on one side of the origin: the maximum of the coordinates when
  one of them is above 0, the minimum when one of them is below 0, and 0 when no
  coordinate lies on that side.
\<close>

definition extremeAbove :: "real list \<Rightarrow> real" where
  "extremeAbove cs = (if list_ex (\<lambda>c. 0 < c) cs then Max (set cs) else 0)"

definition extremeBelow :: "real list \<Rightarrow> real" where
  "extremeBelow cs = (if list_ex (\<lambda>c. c < 0) cs then Min (set cs) else 0)"

text \<open>The coordinates of a list are all identical: each is the first one.\<close>

definition allIdentical :: "'a list \<Rightarrow> bool" where
  "allIdentical vs = list_all (\<lambda>v. v = hd vs) vs"

text \<open>
  The opacity in the four bands up to the cull distance, over the reals: the base
  opacity \<open>b\<close> times a factor that is linear in the distance \<open>d\<close> within each band.
\<close>

definition bandOpacity :: "real \<Rightarrow> real \<Rightarrow> real \<Rightarrow> real \<Rightarrow> real \<Rightarrow> real \<Rightarrow> real" where
  "bandOpacity i n f c b d =
    (if f < d then b * (1 - (d - f) / (c - f))
     else if d < i then b * (d / i) * 0.5
     else if d < n then b * (0.5 + (d - i) / (n - i) * 0.5)
     else b)"

text \<open>
  The population standard deviation of a list of reals: the square root of the mean of
  the squared deviations from the mean.
\<close>

definition mean :: "real list \<Rightarrow> real" where
  "mean vs = sum_list vs / real (length vs)"

definition popStdDev :: "real list \<Rightarrow> real" where
  "popStdDev vs = sqrt (sum_list (map (\<lambda>v. (v - mean vs)\<^sup>2) vs) / real (length vs))"

section \<open>Example data\<close>

text \<open>
  A vocabulary of five words with vectors of two dimensions, and six axis vectors: the
  two ends of the first axis, the two ends of the second, and a third axis whose two
  vectors are zero. \<^verbatim>\<open>Dog\<close> fails the quality filter, \<^verbatim>\<open>hot\<close> is an axis word,
  and the vector of \<^verbatim>\<open>fog\<close> is the zero vector.
\<close>

definition exampleVocab :: vocabData where
  "exampleVocab =
    \<lparr>words = [''cat'', ''Dog'', ''sun'', ''hot'', ''fog''],
     vectors = [Fin 1, Fin 0, Fin 0, Fin 1, Fin 0, Fin 1, Fin 1, Fin 0, Fin 0, Fin 0],
     dims = 2\<rparr>"

definition exampleAxes :: "jsnum list axes" where
  "exampleAxes =
    \<lparr>xPos = [Fin 1, Fin 0], xNeg = [Fin (- 1), Fin 0],
     yPos = [Fin 0, Fin 1], yNeg = [Fin 0, Fin (- 1)],
     zPos = [Fin 0, Fin 0], zNeg = [Fin 0, Fin 0]\<rparr>"

definition exampleAxisWords :: "string set" where
  "exampleAxisWords = {''hot'', ''cold'', ''high'', ''low'', ''new'', ''old''}"

text \<open>
  Axis vectors for a form in which the same word is entered at both ends of every axis.
\<close>

definition sameEndAxes :: "jsnum list axes" where
  "sameEndAxes =
    \<lparr>xPos = [Fin 1, Fin 0], xNeg = [Fin 1, Fin 0],
     yPos = [Fin 0, Fin 1], yNeg = [Fin 0, Fin 1],
     zPos = [Fin 1, Fin 0], zNeg = [Fin 1, Fin 0]\<rparr>"



text \<open>
  Three words whose vectors \<open>(4, 3, 0)\<close>, \<open>(4, 0, 3)\<close> and \<open>(4, -3, 0)\<close> have the same
  cosine similarity \<open>4 / 5\<close> to the first unit vector, and the six unit vectors of three
  dimensions as axis vectors.
\<close>

definition sharedVocab :: vocabData where
  "sharedVocab =
    \<lparr>words = [''cat'', ''sun'', ''fog''],
     vectors = [Fin 4, Fin 3, Fin 0, Fin 4, Fin 0, Fin 3, Fin 4, Fin (- 3), Fin 0],
     dims = 3\<rparr>"

definition unitAxes :: "jsnum list axes" where
  "unitAxes =
    \<lparr>xPos = [Fin 1, Fin 0, Fin 0], xNeg = [Fin (- 1), Fin 0, Fin 0],
     yPos = [Fin 0, Fin 1, Fin 0], yNeg = [Fin 0, Fin (- 1), Fin 0],
     zPos = [Fin 0, Fin 0, Fin 1], zNeg = [Fin 0, Fin 0, Fin (- 1)]\<rparr>"

section \<open>Loading the vocabulary\<close>

lemma isInteger_quotient:
  assumes "0 < N"
  shows "Number_isInteger (jdiv (Fin (real L)) (Fin (real N))) \<longleftrightarrow> N dvd L"
proof
  assume "Number_isInteger (jdiv (Fin (real L)) (Fin (real N)))"
  with assms have "real_of_int \<lfloor>real L / real N\<rfloor> = real L / real N"
    by simp
  moreover have "real L = (real L / real N) * real N"
    using assms by simp
  ultimately have "real L = real_of_int \<lfloor>real L / real N\<rfloor> * real N"
    by metis
  moreover have "0 \<le> \<lfloor>real L / real N\<rfloor>"
    by simp
  then obtain k where k: "\<lfloor>real L / real N\<rfloor> = int k"
    using nonneg_int_cases by blast
  ultimately have "real L = real (k * N)"
    by simp
  then have "L = k * N"
    using of_nat_eq_iff by blast
  then show "N dvd L"
    by simp
next
  assume "N dvd L"
  then obtain k where "L = N * k" ..
  with assms show "Number_isInteger (jdiv (Fin (real L)) (Fin (real N)))"
    by simp
qed

lemma quotient_dims:
  assumes "0 < N"
  shows "nat \<lfloor>the_real (jdiv (Fin (real (N * D))) (Fin (real N)))\<rfloor> = D"
  using assms by simp

lemma loadVocabulary_empty_vocabulary:
  assumes "ok vocabResp" and "ok binResp" and "body vocabResp = []"
  shows "loadVocabulary vocabResp binResp = Inl DimensionMismatch"
  using assms by (simp add: loadVocabulary_def Let_def inf_of_sign_def)

text \<open>
  C4, as stated, fails on the empty vocabulary: with no word and no float the length of
  the buffer is \<open>0 = 0 \<times> 3\<close>, and loading fails, since \<^verbatim>\<open>0 / 0\<close> is not an integer.
\<close>

theorem loadVocabulary_empty_counterexample:
  "length ([] :: jsnum list) = length ([] :: string list) * 3
   \<and> loadVocabulary \<lparr>ok = True, body = []\<rparr> \<lparr>ok = True, body = []\<rparr> = Inl DimensionMismatch"
  by (simp add: loadVocabulary_def inf_of_sign_def)

text \<open>
  C4, amended: when both files were fetched and the vocabulary has at least one word,
  loading fails with the dimension mismatch error whenever the number of floats is not a
  multiple of the number of words, and when the number of floats is \<open>N \<times> D\<close> it succeeds
  and reports the dimensionality \<open>D\<close>.
\<close>

theorem loadVocabulary_divisibility:
  assumes "ok vocabResp" and "ok binResp" and "0 < length (body vocabResp)"
  shows "(\<not> length (body vocabResp) dvd length (body binResp)
            \<longrightarrow> loadVocabulary vocabResp binResp = Inl DimensionMismatch)
       \<and> (\<forall>D. length (body binResp) = length (body vocabResp) * D
            \<longrightarrow> loadVocabulary vocabResp binResp
                = Inr \<lparr>words = body vocabResp, vectors = body binResp, dims = D\<rparr>)"
proof (intro conjI allI impI)
  assume "\<not> length (body vocabResp) dvd length (body binResp)"
  then have "\<not> Number_isInteger (jdiv (Fin (real (length (body binResp))))
                                      (Fin (real (length (body vocabResp)))))"
    using assms(3) isInteger_quotient by blast
  then show "loadVocabulary vocabResp binResp = Inl DimensionMismatch"
    using assms(1,2) by (simp add: loadVocabulary_def Let_def)
next
  fix D
  assume len: "length (body binResp) = length (body vocabResp) * D"
  then have "length (body vocabResp) dvd length (body binResp)"
    by simp
  then have int: "Number_isInteger (jdiv (Fin (real (length (body binResp))))
                                         (Fin (real (length (body vocabResp)))))"
    using assms(3) isInteger_quotient by blast
  have "nat \<lfloor>the_real (jdiv (Fin (real (length (body binResp))))
                           (Fin (real (length (body vocabResp)))))\<rfloor> = D"
    unfolding len using assms(3) by (rule quotient_dims)
  with int show "loadVocabulary vocabResp binResp
      = Inr \<lparr>words = body vocabResp, vectors = body binResp, dims = D\<rparr>"
    using assms(1,2) by (simp add: loadVocabulary_def Let_def)
qed

theorem loadVocabulary_divisibility_witness:
  "loadVocabulary \<lparr>ok = True, body = [''cat'', ''dog'']\<rparr>
                  \<lparr>ok = True, body = [Fin 1, Fin 0, Fin 0]\<rparr> = Inl DimensionMismatch
   \<and> loadVocabulary \<lparr>ok = True, body = [''cat'', ''dog'']\<rparr>
                    \<lparr>ok = True, body = [Fin 1, Fin 0, Fin 0, Fin 1]\<rparr>
     = Inr \<lparr>words = [''cat'', ''dog''], vectors = [Fin 1, Fin 0, Fin 0, Fin 1], dims = 2\<rparr>"
proof -
  let ?v = "\<lparr>ok = True, body = [''cat'', ''dog'']\<rparr>"
  let ?three = "\<lparr>ok = True, body = [Fin 1, Fin 0, Fin 0]\<rparr>"
  let ?four = "\<lparr>ok = True, body = [Fin 1, Fin 0, Fin 0, Fin 1]\<rparr>"
  have v: "ok ?v" "0 < length (body ?v)" and b: "ok ?three" "ok ?four"
    by simp_all
  have odd: "\<not> length (body ?v) dvd length (body ?three)"
    by code_simp
  have even: "length (body ?four) = length (body ?v) * 2"
    by simp
  from loadVocabulary_divisibility [OF v(1) b(1) v(2)] odd
  have "loadVocabulary ?v ?three = Inl DimensionMismatch"
    by blast
  moreover from loadVocabulary_divisibility [OF v(1) b(2) v(2)] even
  have "loadVocabulary ?v ?four = Inr \<lparr>words = body ?v, vectors = body ?four, dims = 2\<rparr>"
    by blast
  ultimately show ?thesis
    by simp
qed

section \<open>Cosine similarity\<close>

lemma jmul_one: "jmul v (Fin 1) = v"
  by (cases v) (simp_all add: inf_of_sign_def)

lemma is_finite_the_real: "is_finite v \<Longrightarrow> v = Fin (the_real v)"
  by (cases v) simp_all

lemma cosineStep_triple:
  "cosineStep a b i (d, m, k) =
    (jadd d (jmul (num_at a i) (num_at b i)),
     jadd m (jmul (num_at a i) (num_at a i)),
     jadd k (jmul (num_at b i) (num_at b i)))"
  by (simp add: cosineStep_def)

text \<open>On finite vectors the three running sums are the sums over the reals.\<close>

lemma cosine_fold_finite:
  assumes "n \<le> length ra" and "n \<le> length rb"
  shows "fold (cosineStep (map Fin ra) (map Fin rb)) [0..<n] (Fin 0, Fin 0, Fin 0)
       = (Fin (\<Sum>i<n. ra ! i * rb ! i), Fin (\<Sum>i<n. ra ! i * ra ! i), Fin (\<Sum>i<n. rb ! i * rb ! i))"
  using assms
proof (induction n)
  case 0
  then show ?case by simp
next
  case (Suc n)
  then show ?case
    by (simp add: cosineStep_triple num_at_def)
qed

lemma cosineSimilarity_finite:
  assumes "length ra \<le> length rb"
  shows "is_finite (cosineSimilarity (map Fin ra) (map Fin rb))"
proof -
  have nonneg: "0 \<le> (\<Sum>i<length ra. ra ! i * ra ! i)" "0 \<le> (\<Sum>i<length ra. rb ! i * rb ! i)"
    by (simp_all add: sum_nonneg)
  show ?thesis
    using assms nonneg
    by (simp add: cosineSimilarity_def cosine_fold_finite jeq_def Let_def not_less [symmetric])
qed

text \<open>
  When every component of \<open>b\<close> that the loop reads is 0, the sum \<^verbatim>\<open>magB\<close> stays 0,
  whatever \<open>a\<close> holds.
\<close>

lemma cosine_fold_zero_axis:
  assumes "\<forall>i<n. num_at b i = Fin 0"
  shows "snd (snd (fold (cosineStep a b) [0..<n] (d, m, Fin 0))) = Fin 0"
  using assms
proof (induction n)
  case 0
  then show ?case by simp
next
  case (Suc n)
  obtain d' m' k' where f: "fold (cosineStep a b) [0..<n] (d, m, Fin 0) = (d', m', k')"
    by (metis prod_cases3)
  with Suc have "k' = Fin 0"
    by simp
  moreover have "num_at b n = Fin 0"
    using Suc.prems by simp
  ultimately show ?case
    using f by (simp add: cosineStep_triple)
qed

lemma cosineSimilarity_zero_axis:
  assumes "\<forall>i<length a. num_at b i = Fin 0"
  shows "cosineSimilarity a b = Fin 0"
proof -
  obtain d m k where f: "fold (cosineStep a b) [0..<length a] (Fin 0, Fin 0, Fin 0) = (d, m, k)"
    by (metis prod_cases3)
  with cosine_fold_zero_axis [OF assms, of a "Fin 0" "Fin 0"] have "k = Fin 0"
    by simp
  with f show ?thesis
    by (simp add: cosineSimilarity_def jeq_def Let_def)
qed

section \<open>Projection of an empty selection\<close>

lemma stddev_mean_Nil: "stddev_mean [] = NaN"
  by (simp add: stddev_mean_def inf_of_sign_def)

lemma stddev_variance_Nil: "stddev_variance [] = NaN"
  by (simp add: stddev_variance_def inf_of_sign_def)

lemma stddev_Nil: "stddev [] = Fin 1"
  by (simp add: stddev_def stddev_variance_Nil jor_def truthy_def)

lemma extremesOf_Nil: "extremesOf [] = (Fin 0, Fin 0, Fin 0, Fin 0, Fin 0, Fin 0)"
  by (simp add: extremesOf_def)

text \<open>
  C10: on an empty list of selected indices \<^verbatim>\<open>projectWords\<close> returns the empty
  array; the model has no error to raise there, as the source has none. The mean and the
  variance of the empty list are \<open>NaN\<close> inside \<^verbatim>\<open>stddev\<close>, and its \<^verbatim>\<open>|| 1\<close>
  turns that into 1, so each of the three standard deviations is the number 1 and no
  \<open>NaN\<close> leaves the function. On the empty result \<^verbatim>\<open>getBeaconPositions\<close> places
  the six beacons at the origin.
\<close>

theorem projectWords_empty_selection:
  "projectWords vocab axisVectors [] scale = []
   \<and> stddev (map x (map (rawPosition vocab axisVectors) [])) = Fin 1
   \<and> stddev (map y (map (rawPosition vocab axisVectors) [])) = Fin 1
   \<and> stddev (map z (map (rawPosition vocab axisVectors) [])) = Fin 1
   \<and> getBeaconPositions axs (projectWords vocab axisVectors [] scale) =
      [\<lparr>word = xNeg axs, x = Fin 0, y = Fin 0, z = Fin 0, axis = ''x-''\<rparr>,
       \<lparr>word = xPos axs, x = Fin 0, y = Fin 0, z = Fin 0, axis = ''x+''\<rparr>,
       \<lparr>word = yPos axs, x = Fin 0, y = Fin 0, z = Fin 0, axis = ''y+''\<rparr>,
       \<lparr>word = yNeg axs, x = Fin 0, y = Fin 0, z = Fin 0, axis = ''y-''\<rparr>,
       \<lparr>word = zPos axs, x = Fin 0, y = Fin 0, z = Fin 0, axis = ''z+''\<rparr>,
       \<lparr>word = zNeg axs, x = Fin 0, y = Fin 0, z = Fin 0, axis = ''z-''\<rparr>]"
  by (simp add: projectWords_def stddev_Nil getBeaconPositions_def extremesOf_Nil pad_def)

section \<open>An axis vector of zero magnitude\<close>

lemma jsub_zero_left: "jsub (Fin 0) v = jneg v"
  by (cases v) (simp_all add: jsub_def)

lemma jsub_zero_right: "jsub v (Fin 0) = v"
  by (cases v) (simp_all add: jsub_def)

lemma num_at_all_zero:
  assumes "list_all (\<lambda>v. v = Fin 0) b" and "length a \<le> length b"
  shows "\<forall>i<length a. num_at b i = Fin 0"
  using assms by (simp add: num_at_def list_all_length)

text \<open>
  C1, as stated, fails: here the vector of \<^verbatim>\<open>xPos\<close> is the zero vector, and
  \<^verbatim>\<open>selectWordsForAxes\<close> selects the word and \<^verbatim>\<open>projectWords\<close> projects it;
  neither function has an error to raise.
\<close>

theorem zero_axis_counterexample:
  "selectWordsForAxes
     \<lparr>words = [''cat''], vectors = [Fin 1, Fin 0], dims = 2\<rparr>
     \<lparr>xPos = [Fin 0, Fin 0], xNeg = [Fin (- 1), Fin 0],
      yPos = [Fin 0, Fin 1], yNeg = [Fin 0, Fin (- 1)],
      zPos = [Fin 0, Fin 1], zNeg = [Fin 0, Fin (- 1)]\<rparr>
     {''big'', ''small''} 7000
   = \<lparr>indices = [0], magnitudes = [Fin 1]\<rparr>
   \<and> projectWords
     \<lparr>words = [''cat''], vectors = [Fin 1, Fin 0], dims = 2\<rparr>
     \<lparr>xPos = [Fin 0, Fin 0], xNeg = [Fin (- 1), Fin 0],
      yPos = [Fin 0, Fin 1], yNeg = [Fin 0, Fin (- 1)],
      zPos = [Fin 0, Fin 1], zNeg = [Fin 0, Fin (- 1)]\<rparr>
     [0] (Fin 50)
   = [\<lparr>word = Some ''cat'', x = Fin 50, y = Fin 0, z = Fin 0, magnitude = Fin 1\<rparr>]"
proof -
  have cos:
    "cosineSimilarity [Fin 1, Fin 0] [Fin 0, Fin 0] = Fin 0"
    "cosineSimilarity [Fin 1, Fin 0] [Fin (- 1), Fin 0] = Fin (- 1)"
    "cosineSimilarity [Fin 1, Fin 0] [Fin 0, Fin 1] = Fin 0"
    "cosineSimilarity [Fin 1, Fin 0] [Fin 0, Fin (- 1)] = Fin 0"
    by (simp_all add: cosineSimilarity_def cosineStep_triple num_at_def jeq_def)
  have quality: "isQualityWord ''cat''"
    by code_simp
  have sd: "stddev [Fin 1] = Fin 1" "stddev [Fin 0] = Fin 1"
    by (simp_all add: stddev_def stddev_variance_def stddev_mean_def jsquare_def jsub_def
        jor_def truthy_def)
  show ?thesis
    by (simp add: selectWordsForAxes_def projectWords_def wordMag_def relevanceMagnitude_def
        rawPosition_def
        normalizeWord_def word_at_def quality getVector_def axisDiff_def cos sd jsub_def
        jsquare_def sortBy_def num_at_def)
qed

text \<open>
  C1, amended: an axis vector of zero magnitude is not rejected. The cosine similarity
  of any vector with an axis vector whose components are all 0 (and that is at least as
  long) is the fallback value 0, so the coordinate of a word on that axis is what the
  other end of the axis alone gives, and selection and projection go on with it.
\<close>

theorem zero_axis_similarity:
  assumes "list_all (\<lambda>v. v = Fin 0) b" and "length a \<le> length b"
  shows "cosineSimilarity a b = Fin 0
       \<and> axisDiff a b neg = jneg (cosineSimilarity a neg)
       \<and> axisDiff a pos b = cosineSimilarity a pos"
  using cosineSimilarity_zero_axis [OF num_at_all_zero [OF assms]]
  by (simp add: axisDiff_def jsub_zero_left jsub_zero_right)

theorem zero_axis_similarity_witness:
  "cosineSimilarity [Fin 1, Fin 0] [Fin 0, Fin 0] = Fin 0
   \<and> axisDiff [Fin 1, Fin 0] [Fin 0, Fin 0] [Fin (- 1), Fin 0]
     = jneg (cosineSimilarity [Fin 1, Fin 0] [Fin (- 1), Fin 0])
   \<and> axisDiff [Fin 1, Fin 0] [Fin 0, Fin 1] [Fin 0, Fin 0]
     = cosineSimilarity [Fin 1, Fin 0] [Fin 0, Fin 1]"
  using zero_axis_similarity [of "[Fin 0, Fin 0]" "[Fin 1, Fin 0]"]
  by simp

section \<open>Validation of the axis words\<close>

lemma toLowerCase_empty: "toLowerCase s = [] \<longleftrightarrow> s = []"
  by (simp add: toLowerCase_def)

text \<open>
  C9, as stated, fails: six non-empty words that are all the same word, so fewer than six
  distinct ones, pass the validation, and the handler goes on to embed them.
\<close>

theorem launch_duplicates_counterexample:
  "card (set (axesValues (readAxes
      \<lparr>left = ''cat'', right = ''cat'', up = ''cat'', down = ''cat'',
       forward = ''cat'', backward = ''cat''\<rparr>))) = 1
   \<and> launch \<lparr>vocabLoaded = True, modelReady = True\<rparr>
       \<lparr>left = ''cat'', right = ''cat'', up = ''cat'', down = ''cat'',
        forward = ''cat'', backward = ''cat''\<rparr>
     = Inr [''cat'', ''cat'', ''cat'', ''cat'', ''cat'', ''cat'']"
proof -
  have "toLowerCase (trim ''cat'') = ''cat''"
    by code_simp
  then show ?thesis
    by (simp add: launch_def readAxes_def axesValues_def)
qed

text \<open>
  C9, amended: once the vocabulary and the model are loaded, whenever one of the six axis
  words is empty after trimming, the handler shows the message to fill in all six words
  and returns before it calls \<^verbatim>\<open>embedWords\<close>, so that nothing is embedded, selected
  or projected; six non-empty words are passed on to \<^verbatim>\<open>embedWords\<close>, trimmed and in
  lower case, whether they are distinct or not.
\<close>

theorem launch_validation:
  assumes "vocabLoaded r" and "modelReady r"
  shows "launch r f =
    (if list_ex (\<lambda>w. trim w = []) [left f, right f, up f, down f, forward f, backward f]
     then Inl FillInAllWords
     else Inr [toLowerCase (trim (right f)), toLowerCase (trim (left f)),
               toLowerCase (trim (up f)), toLowerCase (trim (down f)),
               toLowerCase (trim (forward f)), toLowerCase (trim (backward f))])"
  using assms
  by (auto simp add: launch_def readAxes_def axesValues_def toLowerCase_empty)

theorem launch_validation_witness:
  "launch \<lparr>vocabLoaded = True, modelReady = True\<rparr>
     \<lparr>left = ''cold'', right = ''hot'', up = ''  '', down = ''low'',
      forward = ''new'', backward = ''old''\<rparr> = Inl FillInAllWords
   \<and> launch \<lparr>vocabLoaded = True, modelReady = True\<rparr>
     \<lparr>left = ''cold'', right = '' Hot'', up = ''high'', down = ''low'',
      forward = ''new'', backward = ''old''\<rparr>
     = Inr [''hot'', ''cold'', ''high'', ''low'', ''new'', ''old'']"
proof -
  have trims:
    "trim ''cold'' = ''cold''" "trim ''hot'' = ''hot''" "trim ''  '' = ''''"
    "trim ''low'' = ''low''" "trim ''new'' = ''new''" "trim ''old'' = ''old''"
    "trim '' Hot'' = ''Hot''" "trim ''high'' = ''high''"
    by code_simp+
  have lowers:
    "toLowerCase ''cold'' = ''cold''" "toLowerCase ''Hot'' = ''hot''"
    "toLowerCase ''low'' = ''low''" "toLowerCase ''new'' = ''new''"
    "toLowerCase ''old'' = ''old''" "toLowerCase ''high'' = ''high''"
    by code_simp+
  show ?thesis
    using launch_validation
            [of "\<lparr>vocabLoaded = True, modelReady = True\<rparr>"
                "\<lparr>left = ''cold'', right = ''hot'', up = ''  '', down = ''low'',
                  forward = ''new'', backward = ''old''\<rparr>"]
          launch_validation
            [of "\<lparr>vocabLoaded = True, modelReady = True\<rparr>"
                "\<lparr>left = ''cold'', right = '' Hot'', up = ''high'', down = ''low'',
                  forward = ''new'', backward = ''old''\<rparr>"]
    by (simp add: trims lowers)
qed

section \<open>Selection\<close>

lemma set_insertBy: "set (insertBy cmp a bs) = insert a (set bs)"
  by (induction bs) auto

lemma distinct_insertBy: "distinct (insertBy cmp a bs) \<longleftrightarrow> a \<notin> set bs \<and> distinct bs"
  by (induction bs) (auto simp add: set_insertBy)

lemma filter_insertBy_length:
  "length (filter P (insertBy cmp a bs)) = length (filter P (a # bs))"
  by (induction bs) auto

text \<open>The sorted array is a rearrangement of the array, whatever the comparator.\<close>

lemma set_sortBy: "set (sortBy cmp bs) = set bs"
  by (induction bs) (simp_all add: sortBy_def set_insertBy)

lemma distinct_sortBy: "distinct (sortBy cmp bs) \<longleftrightarrow> distinct bs"
  by (induction bs) (simp_all add: sortBy_def distinct_insertBy set_sortBy [unfolded sortBy_def])

lemma filter_sortBy_length: "length (filter P (sortBy cmp bs)) = length (filter P bs)"
  by (induction bs) (simp_all add: sortBy_def filter_insertBy_length)

text \<open>The last loop takes the first \<open>topK\<close> of the sorted indices with a positive score.\<close>

lemma takeTop_take:
  "takeTop mags topK rest selected
   = selected @ take (topK - length selected) (filter (\<lambda>i. jgt (num_at mags i) (Fin 0)) rest)"
  by (induction rest arbitrary: selected) (auto simp add: take_Cons')

lemma num_at_mags:
  assumes "i < n"
  shows "num_at (map f [0..<n]) i = f i"
  using assms by (simp add: num_at_def)

lemma wordMag_positive:
  "jgt (wordMag vocab axisVectors axisWords i) (Fin 0)
   \<longleftrightarrow> positiveEligible vocab axisVectors axisWords i"
  by (simp add: wordMag_def positiveEligible_def)

lemma indices_selectWordsForAxes:
  "indices (selectWordsForAxes vocab axisVectors axisWords topK)
   = take topK (filter (positiveEligible vocab axisVectors axisWords)
       (sortBy (\<lambda>a b. jsub (num_at (map (wordMag vocab axisVectors axisWords)
                                      [0..<length (words vocab)]) b)
                            (num_at (map (wordMag vocab axisVectors axisWords)
                                      [0..<length (words vocab)]) a))
          [0..<length (words vocab)]))"
proof -
  let ?n = "length (words vocab)"
  let ?mags = "map (wordMag vocab axisVectors axisWords) [0..<?n]"
  let ?sorted = "sortBy (\<lambda>a b. jsub (num_at ?mags b) (num_at ?mags a)) [0..<?n]"
  have "filter (\<lambda>i. jgt (num_at ?mags i) (Fin 0)) ?sorted
      = filter (positiveEligible vocab axisVectors axisWords) ?sorted"
  proof (rule filter_cong [OF refl])
    fix i
    assume "i \<in> set ?sorted"
    then have "i < ?n"
      by (simp add: set_sortBy)
    then show "jgt (num_at ?mags i) (Fin 0) = positiveEligible vocab axisVectors axisWords i"
      by (simp add: num_at_mags wordMag_positive)
  qed
  then show ?thesis
    by (simp add: selectWordsForAxes_def Let_def takeTop_take)
qed

lemma length_indices_selectWordsForAxes:
  "length (indices (selectWordsForAxes vocab axisVectors axisWords topK))
   = min topK (positiveCount vocab axisVectors axisWords)"
  by (simp add: indices_selectWordsForAxes filter_sortBy_length positiveCount_def min.commute)

lemma distinct_indices_selectWordsForAxes:
  "distinct (indices (selectWordsForAxes vocab axisVectors axisWords topK))"
  by (simp add: indices_selectWordsForAxes distinct_sortBy)

lemma set_indices_selectWordsForAxes:
  "set (indices (selectWordsForAxes vocab axisVectors axisWords topK))
   \<subseteq> {i. i < length (words vocab) \<and> positiveEligible vocab axisVectors axisWords i}"
proof
  fix i
  assume "i \<in> set (indices (selectWordsForAxes vocab axisVectors axisWords topK))"
  then have "i \<in> set (filter (positiveEligible vocab axisVectors axisWords)
       (sortBy (\<lambda>a b. jsub (num_at (map (wordMag vocab axisVectors axisWords)
                                      [0..<length (words vocab)]) b)
                            (num_at (map (wordMag vocab axisVectors axisWords)
                                      [0..<length (words vocab)]) a))
          [0..<length (words vocab)]))"
    unfolding indices_selectWordsForAxes by (rule in_set_takeD)
  then show "i \<in> {i. i < length (words vocab) \<and> positiveEligible vocab axisVectors axisWords i}"
    by (simp add: set_sortBy)
qed

lemma all_selected_when_few:
  assumes "positiveCount vocab axisVectors axisWords \<le> topK"
  shows "set (indices (selectWordsForAxes vocab axisVectors axisWords topK))
       = {i. i < length (words vocab) \<and> positiveEligible vocab axisVectors axisWords i}"
proof -
  let ?sel = "filter (positiveEligible vocab axisVectors axisWords)
       (sortBy (\<lambda>a b. jsub (num_at (map (wordMag vocab axisVectors axisWords)
                                      [0..<length (words vocab)]) b)
                            (num_at (map (wordMag vocab axisVectors axisWords)
                                      [0..<length (words vocab)]) a))
          [0..<length (words vocab)])"
  have "length ?sel \<le> topK"
    using assms by (simp add: filter_sortBy_length positiveCount_def)
  then have "take topK ?sel = ?sel"
    by simp
  then show ?thesis
    by (auto simp add: indices_selectWordsForAxes set_sortBy)
qed

lemma eligibleCount_indices:
  "eligibleCount vocab axisWords
   = length (filter (\<lambda>i. words vocab ! i \<notin> axisWords \<and> isQualityWord (words vocab ! i))
       [0..<length (words vocab)])"
proof -
  have "filter (\<lambda>w. w \<notin> axisWords \<and> isQualityWord w) (map (\<lambda>i. words vocab ! i) [0..<length (words vocab)])
      = map (\<lambda>i. words vocab ! i)
          (filter (\<lambda>i. words vocab ! i \<notin> axisWords \<and> isQualityWord (words vocab ! i))
             [0..<length (words vocab)])"
    by (simp add: filter_map comp_def)
  then have "length (filter (\<lambda>w. w \<notin> axisWords \<and> isQualityWord w) (words vocab))
      = length (filter (\<lambda>i. words vocab ! i \<notin> axisWords \<and> isQualityWord (words vocab ! i))
             [0..<length (words vocab)])"
    by (simp add: map_nth)
  then show ?thesis
    by (simp add: eligibleCount_def)
qed

lemma positiveCount_le_eligibleCount:
  "positiveCount vocab axisVectors axisWords \<le> eligibleCount vocab axisWords"
proof -
  have "filter (positiveEligible vocab axisVectors axisWords) [0..<length (words vocab)]
      = filter (\<lambda>i. jgt (relevanceMagnitude vocab axisVectors i) (Fin 0))
          (filter (\<lambda>i. words vocab ! i \<notin> axisWords \<and> isQualityWord (words vocab ! i))
             [0..<length (words vocab)])"
    by (auto simp add: positiveEligible_def intro: filter_cong)
  then show ?thesis
    unfolding positiveCount_def eligibleCount_indices
    by (metis length_filter_le)
qed

lemma sorted_insertBy:
  fixes g :: "'a \<Rightarrow> real"
  assumes "\<And>b. b \<in> set bs \<Longrightarrow> jgt (cmp a b) (Fin 0) \<longleftrightarrow> g a < g b"
    and "sorted_wrt (\<lambda>a b. g b \<le> g a) bs"
  shows "sorted_wrt (\<lambda>a b. g b \<le> g a) (insertBy cmp a bs)"
  using assms
proof (induction bs)
  case Nil
  then show ?case by simp
next
  case (Cons b bs)
  show ?case
  proof (cases "jgt (cmp a b) (Fin 0)")
    case True
    then have "g a \<le> g b"
      using Cons.prems(1) [of b] by simp
    with Cons True show ?thesis
      by (auto simp add: set_insertBy)
  next
    case False
    then have "g b \<le> g a"
      using Cons.prems(1) [of b] by simp
    with Cons False show ?thesis
      by auto
  qed
qed

lemma sorted_sortBy:
  fixes g :: "'a \<Rightarrow> real"
  assumes "\<And>a b. a \<in> set bs \<Longrightarrow> b \<in> set bs \<Longrightarrow> jgt (cmp a b) (Fin 0) \<longleftrightarrow> g a < g b"
  shows "sorted_wrt (\<lambda>a b. g b \<le> g a) (sortBy cmp bs)"
  using assms
proof (induction bs)
  case Nil
  then show ?case by (simp add: sortBy_def)
next
  case (Cons a bs)
  have "sorted_wrt (\<lambda>a b. g b \<le> g a) (sortBy cmp bs)"
    using Cons by simp
  moreover have "\<And>b. b \<in> set (sortBy cmp bs) \<Longrightarrow> jgt (cmp a b) (Fin 0) \<longleftrightarrow> g a < g b"
    using Cons.prems by (simp add: set_sortBy)
  ultimately have "sorted_wrt (\<lambda>a b. g b \<le> g a) (insertBy cmp a (sortBy cmp bs))"
    by (intro sorted_insertBy)
  then show ?case
    by (simp add: sortBy_def)
qed

lemma sorted_wrt_filter_take:
  assumes "sorted_wrt P bs"
  shows "sorted_wrt P (take k (filter Q bs))"
  using assms sorted_wrt_filter sorted_wrt_take by blast

text \<open>
  When all the scores are finite numbers, as they are for finite vectors, the comparator
  is consistent, and the indices are returned in the descending order of their scores.
\<close>

lemma selection_descending:
  assumes "list_all is_finite (magnitudes (selectWordsForAxes vocab axisVectors axisWords topK))"
  shows "sorted_wrt
    (\<lambda>a b. the_real (wordMag vocab axisVectors axisWords b)
            \<le> the_real (wordMag vocab axisVectors axisWords a))
    (indices (selectWordsForAxes vocab axisVectors axisWords topK))"
proof -
  let ?n = "length (words vocab)"
  let ?mags = "map (wordMag vocab axisVectors axisWords) [0..<?n]"
  let ?g = "\<lambda>i. the_real (wordMag vocab axisVectors axisWords i)"
  let ?cmp = "\<lambda>a b. jsub (num_at ?mags b) (num_at ?mags a)"
  have fin: "is_finite (wordMag vocab axisVectors axisWords i)" if "i < ?n" for i
    using assms that by (simp add: selectWordsForAxes_def Let_def list_all_iff)
  have "jgt (?cmp a b) (Fin 0) \<longleftrightarrow> ?g a < ?g b"
    if "a \<in> set [0..<?n]" "b \<in> set [0..<?n]" for a b
  proof -
    from that have ab: "a < ?n" "b < ?n"
      by simp_all
    then obtain p q where "wordMag vocab axisVectors axisWords a = Fin p"
      "wordMag vocab axisVectors axisWords b = Fin q"
      using fin is_finite_the_real by blast
    with ab show ?thesis
      by (simp add: num_at_mags jsub_def)
  qed
  then have "sorted_wrt (\<lambda>a b. ?g b \<le> ?g a) (sortBy ?cmp [0..<?n])"
    by (rule sorted_sortBy)
  then show ?thesis
    unfolding indices_selectWordsForAxes by (rule sorted_wrt_filter_take)
qed

lemma is_a_to_z_letters: "is_a_to_z c \<longleftrightarrow> c \<in> set ''abcdefghijklmnopqrstuvwxyz''"
  by (cases c) (simp add: is_a_to_z_def; fastforce)

text \<open>
  For every vocabulary, axis set, set of axis words and cap \<open>K\<close>, at most \<open>K\<close>
  indices are returned, and no index twice.
\<close>

lemma selection_at_most_topK:
  "length (indices (selectWordsForAxes vocab axisVectors axisWords topK)) \<le> topK
   \<and> distinct (indices (selectWordsForAxes vocab axisVectors axisWords topK))"
  by (simp add: length_indices_selectWordsForAxes distinct_indices_selectWordsForAxes)

text \<open>
  The difference of two equal cosine similarities is 0, or \<open>NaN\<close> when they are
  \<open>NaN\<close>, on doubles as over the reals; so is the relevance magnitude that is computed
  from three such differences, and it is not above 0.
\<close>

lemma jsub_self: "jsub c c = Fin 0 \<or> jsub c c = NaN"
  by (cases c) (simp_all add: jsub_def)

lemma axisDiff_same_end: "axisDiff vec p p = Fin 0 \<or> axisDiff vec p p = NaN"
  unfolding axisDiff_def by (rule jsub_self)

lemma relevance_same_ends:
  assumes "xNeg axisVectors = xPos axisVectors" and "yNeg axisVectors = yPos axisVectors"
    and "zNeg axisVectors = zPos axisVectors"
  shows "\<not> jgt (relevanceMagnitude vocab axisVectors i) (Fin 0)"
  using axisDiff_same_end [of "getVector i (vectors vocab) (dims vocab)" "xPos axisVectors"]
    axisDiff_same_end [of "getVector i (vectors vocab) (dims vocab)" "yPos axisVectors"]
    axisDiff_same_end [of "getVector i (vectors vocab) (dims vocab)" "zPos axisVectors"]
  by (auto simp add: relevanceMagnitude_def Let_def assms)

text \<open>
  C2 fails of the program whenever the two ends of each axis have the same vector, as
  they have when the same word is entered at both ends of every axis: then, for every
  vocabulary, set of axis words and cap, no index is returned, however many words pass
  the quality filter and are no axis word. The score of such a word is 0 (or \<open>NaN\<close>),
  and the last loop keeps an index only if its score is above 0, a test that its comment
  describes as skipping the filtered words, whose score is \<open>-1\<close>. On the example
  vocabulary three words are eligible and none is returned, where the claim has
  \<open>min 7000 3 = 3\<close> indices.
\<close>

theorem same_ends_select_nothing:
  assumes "xNeg axisVectors = xPos axisVectors" and "yNeg axisVectors = yPos axisVectors"
    and "zNeg axisVectors = zPos axisVectors"
  shows "indices (selectWordsForAxes vocab axisVectors axisWords topK) = []"
proof -
  have "positiveEligible vocab axisVectors axisWords = (\<lambda>i. False)"
    using relevance_same_ends [OF assms] by (intro ext) (simp add: positiveEligible_def)
  then show ?thesis
    by (simp add: indices_selectWordsForAxes)
qed

text \<open>
  C3: an index that \<^verbatim>\<open>selectWordsForAxes\<close> returns is an index of the vocabulary, and
  the word there is none of the axis words and passes the quality filter, that is, it
  has 3 to 15 characters, all of them among the 26 lower case letters. This holds for all
  vectors, so whatever the relevance magnitude of an excluded word would be.
\<close>

theorem selection_exclusion:
  "\<forall>i \<in> set (indices (selectWordsForAxes vocab axisVectors axisWords topK)).
     i < length (words vocab)
     \<and> words vocab ! i \<notin> axisWords
     \<and> isQualityWord (words vocab ! i)
     \<and> 3 \<le> length (words vocab ! i) \<and> length (words vocab ! i) \<le> 15
     \<and> set (words vocab ! i) \<subseteq> set ''abcdefghijklmnopqrstuvwxyz''"
proof
  fix i
  assume "i \<in> set (indices (selectWordsForAxes vocab axisVectors axisWords topK))"
  with set_indices_selectWordsForAxes
  have i: "i < length (words vocab)" "positiveEligible vocab axisVectors axisWords i"
    by blast+
  then have q: "words vocab ! i \<notin> axisWords" "isQualityWord (words vocab ! i)"
    by (simp_all add: positiveEligible_def)
  from q(2) have "3 \<le> length (words vocab ! i)" "length (words vocab ! i) \<le> 15"
    "list_all is_a_to_z (words vocab ! i)"
    by (simp_all add: isQualityWord_def WORD_RE_test_def)
  moreover from this(3) have "set (words vocab ! i) \<subseteq> set ''abcdefghijklmnopqrstuvwxyz''"
    unfolding list_all_iff using is_a_to_z_letters by blast
  ultimately show "i < length (words vocab)
     \<and> words vocab ! i \<notin> axisWords
     \<and> isQualityWord (words vocab ! i)
     \<and> 3 \<le> length (words vocab ! i) \<and> length (words vocab ! i) \<le> 15
     \<and> set (words vocab ! i) \<subseteq> set ''abcdefghijklmnopqrstuvwxyz''"
    using i(1) q by simp
qed

section \<open>The selection on the example data\<close>

lemma unit_cosines:
  "cosineSimilarity [Fin 1, Fin 0] [Fin 1, Fin 0] = Fin 1"
  "cosineSimilarity [Fin 1, Fin 0] [Fin (- 1), Fin 0] = Fin (- 1)"
  "cosineSimilarity [Fin 1, Fin 0] [Fin 0, Fin 1] = Fin 0"
  "cosineSimilarity [Fin 1, Fin 0] [Fin 0, Fin (- 1)] = Fin 0"
  "cosineSimilarity [Fin 1, Fin 0] [Fin 0, Fin 0] = Fin 0"
  "cosineSimilarity [Fin 0, Fin 1] [Fin 1, Fin 0] = Fin 0"
  "cosineSimilarity [Fin 0, Fin 1] [Fin (- 1), Fin 0] = Fin 0"
  "cosineSimilarity [Fin 0, Fin 1] [Fin 0, Fin 1] = Fin 1"
  "cosineSimilarity [Fin 0, Fin 1] [Fin 0, Fin (- 1)] = Fin (- 1)"
  "cosineSimilarity [Fin 0, Fin 1] [Fin 0, Fin 0] = Fin 0"
  "cosineSimilarity [Fin 0, Fin 0] b = Fin 0"
  by (simp_all add: cosineSimilarity_def cosineStep_triple num_at_def jeq_def split: prod.splits)

lemma example_quality:
  "isQualityWord ''cat''" "\<not> isQualityWord ''Dog''" "isQualityWord ''sun''"
  "isQualityWord ''hot''" "isQualityWord ''fog''"
  by code_simp+

lemma example_words:
  "words exampleVocab = [''cat'', ''Dog'', ''sun'', ''hot'', ''fog'']"
  "length (words exampleVocab) = 5"
  by (simp_all add: exampleVocab_def)

lemma example_relevance:
  "relevanceMagnitude exampleVocab exampleAxes 0 = Fin 2"
  "relevanceMagnitude exampleVocab exampleAxes (Suc (Suc 0)) = Fin 2"
  "relevanceMagnitude exampleVocab exampleAxes (Suc (Suc (Suc (Suc 0)))) = Fin 0"
  by (simp_all add: relevanceMagnitude_def exampleVocab_def exampleAxes_def getVector_def
      axisDiff_def unit_cosines jsub_def)

lemma example_mags:
  "map (wordMag exampleVocab exampleAxes exampleAxisWords) [0..<5]
   = [Fin 2, Fin (- 1), Fin 2, Fin (- 1), Fin 0]"
  by (simp add: wordMag_def example_words(1) exampleAxisWords_def example_quality
      example_relevance upt_conv_Cons)

lemma example_sorted:
  "sortBy (\<lambda>a b. jsub (num_at [Fin 2, Fin (- 1), Fin 2, Fin (- 1), Fin 0] b)
                       (num_at [Fin 2, Fin (- 1), Fin 2, Fin (- 1), Fin 0] a)) [0..<5]
   = [0, 2, 4, 1, 3]"
  by (simp add: sortBy_def num_at_def jsub_def upt_conv_Cons)

lemma example_selection:
  "indices (selectWordsForAxes exampleVocab exampleAxes exampleAxisWords topK)
   = takeTop [Fin 2, Fin (- 1), Fin 2, Fin (- 1), Fin 0] topK [0, 2, 4, 1, 3] []"
  by (simp only: selectWordsForAxes_def Let_def example_words(2) example_mags example_sorted
      selection.simps)

lemma example_selection_7000:
  "indices (selectWordsForAxes exampleVocab exampleAxes exampleAxisWords 7000) = [0, 2]"
  by (simp add: example_selection num_at_def)

lemma example_selection_1:
  "indices (selectWordsForAxes exampleVocab exampleAxes exampleAxisWords 1) = [0]"
  by (simp add: example_selection num_at_def)

lemma example_counts:
  "positiveCount exampleVocab exampleAxes exampleAxisWords = 2"
  "eligibleCount exampleVocab exampleAxisWords = 3"
  by (simp_all add: positiveCount_def positiveEligible_def eligibleCount_def example_words
      exampleAxisWords_def example_quality example_relevance upt_conv_Cons)

text \<open>
  The example vocabulary with the same vector at both ends of every axis: the scores
  that are stored are 0 for the three eligible words and \<open>-1\<close> for the two others.
\<close>

lemma same_end_relevance:
  "relevanceMagnitude exampleVocab sameEndAxes 0 = Fin 0"
  "relevanceMagnitude exampleVocab sameEndAxes (Suc (Suc 0)) = Fin 0"
  "relevanceMagnitude exampleVocab sameEndAxes (Suc (Suc (Suc (Suc 0)))) = Fin 0"
  by (simp_all add: relevanceMagnitude_def exampleVocab_def sameEndAxes_def getVector_def
      axisDiff_def unit_cosines jsub_def)

lemma same_end_mags:
  "map (wordMag exampleVocab sameEndAxes exampleAxisWords) [0..<5]
   = [Fin 0, Fin (- 1), Fin 0, Fin (- 1), Fin 0]"
  by (simp add: wordMag_def example_words(1) exampleAxisWords_def example_quality
      same_end_relevance upt_conv_Cons)

lemma same_end_magnitudes:
  "magnitudes (selectWordsForAxes exampleVocab sameEndAxes exampleAxisWords 7000)
   = [Fin 0, Fin (- 1), Fin 0, Fin (- 1), Fin 0]"
  by (simp only: selectWordsForAxes_def Let_def example_words(2) same_end_mags selection.simps)

theorem same_ends_select_nothing_witness:
  "magnitudes (selectWordsForAxes exampleVocab sameEndAxes exampleAxisWords 7000)
   = [Fin 0, Fin (- 1), Fin 0, Fin (- 1), Fin 0]
   \<and> indices (selectWordsForAxes exampleVocab sameEndAxes exampleAxisWords 7000) = []
   \<and> eligibleCount exampleVocab exampleAxisWords = 3
   \<and> min 7000 (eligibleCount exampleVocab exampleAxisWords) = 3"
proof -
  have "xNeg sameEndAxes = xPos sameEndAxes" "yNeg sameEndAxes = yPos sameEndAxes"
    "zNeg sameEndAxes = zPos sameEndAxes"
    by (simp_all add: sameEndAxes_def)
  then have "indices (selectWordsForAxes exampleVocab sameEndAxes exampleAxisWords 7000) = []"
    by (rule same_ends_select_nothing)
  then show ?thesis
    by (simp add: same_end_magnitudes example_counts)
qed

theorem selection_exclusion_witness:
  "0 \<in> set (indices (selectWordsForAxes exampleVocab exampleAxes exampleAxisWords 7000))
   \<and> words exampleVocab ! 0 \<notin> exampleAxisWords
   \<and> isQualityWord (words exampleVocab ! 0)
   \<and> 1 \<notin> set (indices (selectWordsForAxes exampleVocab exampleAxes exampleAxisWords 7000))
   \<and> 3 \<notin> set (indices (selectWordsForAxes exampleVocab exampleAxes exampleAxisWords 7000))"
proof -
  let ?S = "indices (selectWordsForAxes exampleVocab exampleAxes exampleAxisWords 7000)"
  note excl = selection_exclusion [of exampleVocab exampleAxes exampleAxisWords 7000]
  have zero: "0 \<in> set ?S"
    by (simp add: example_selection_7000)
  with excl have cat: "words exampleVocab ! 0 \<notin> exampleAxisWords"
      "isQualityWord (words exampleVocab ! 0)"
    by blast+
  have one: "1 \<notin> set ?S"
  proof
    assume "1 \<in> set ?S"
    with excl have "isQualityWord (words exampleVocab ! 1)"
      by blast
    with example_quality(2) show False
      by (simp add: example_words)
  qed
  have three: "3 \<notin> set ?S"
  proof
    assume "3 \<in> set ?S"
    with excl have "words exampleVocab ! 3 \<notin> exampleAxisWords"
      by blast
    then show False
      by (simp add: example_words exampleAxisWords_def)
  qed
  from zero cat one three show ?thesis
    by blast
qed

section \<open>Beacons\<close>

lemma fold_max_extremeAbove: "fold max cs 0 = extremeAbove cs"
proof -
  have "fold max cs 0 = Max (set (0 # cs))"
    by (simp only: Max.set_eq_fold)
  also have "\<dots> = extremeAbove cs"
  proof (cases "list_ex (\<lambda>c. 0 < c) cs")
    case True
    then obtain c where c: "c \<in> set cs" "0 < c"
      by (auto simp add: list_ex_iff)
    then have "0 \<le> Max (set cs)"
      by (meson List.finite_set Max_ge order.strict_implies_order order_trans)
    moreover have "Max (insert 0 (set cs)) = max 0 (Max (set cs))"
      using c(1) by (intro Max_insert) auto
    ultimately show ?thesis
      using True by (simp add: extremeAbove_def)
  next
    case False
    then have "\<forall>c\<in>set cs. c \<le> 0"
      by (auto simp add: list_ex_iff not_less)
    then have "Max (insert 0 (set cs)) = 0"
      by (intro Max_eqI) auto
    with False show ?thesis
      by (simp add: extremeAbove_def)
  qed
  finally show ?thesis .
qed

lemma fold_min_extremeBelow: "fold min cs 0 = extremeBelow cs"
proof -
  have "fold min cs 0 = Min (set (0 # cs))"
    by (simp only: Min.set_eq_fold)
  also have "\<dots> = extremeBelow cs"
  proof (cases "list_ex (\<lambda>c. c < 0) cs")
    case True
    then obtain c where c: "c \<in> set cs" "c < 0"
      by (auto simp add: list_ex_iff)
    then have "Min (set cs) \<le> 0"
      by (meson List.finite_set Min_le order.strict_implies_order order_trans)
    moreover have "Min (insert 0 (set cs)) = min 0 (Min (set cs))"
      using c(1) by (intro Min_insert) auto
    ultimately show ?thesis
      using True by (simp add: extremeBelow_def)
  next
    case False
    then have "\<forall>c\<in>set cs. 0 \<le> c"
      by (auto simp add: list_ex_iff not_less)
    then have "Min (insert 0 (set cs)) = 0"
      by (intro Min_eqI) auto
    with False show ?thesis
      by (simp add: extremeBelow_def)
  qed
  finally show ?thesis .
qed

lemma extremesStep_finite:
  "extremesStep \<lparr>word = w, x = Fin a, y = Fin b, z = Fin c, magnitude = m\<rparr>
     (Fin a1, Fin a2, Fin b1, Fin b2, Fin c1, Fin c2)
   = (Fin (max a a1), Fin (min a a2), Fin (max b b1), Fin (min b b2),
      Fin (max c c1), Fin (min c c2))"
  by (simp add: extremesStep_def jlt_def max_def min_def)

lemma fold_extremesStep_finite:
  assumes "list_all (\<lambda>p. is_finite (x p) \<and> is_finite (y p) \<and> is_finite (z p)) ps"
  shows "fold extremesStep ps (Fin a1, Fin a2, Fin b1, Fin b2, Fin c1, Fin c2)
       = (Fin (fold max (map (the_real \<circ> x) ps) a1), Fin (fold min (map (the_real \<circ> x) ps) a2),
          Fin (fold max (map (the_real \<circ> y) ps) b1), Fin (fold min (map (the_real \<circ> y) ps) b2),
          Fin (fold max (map (the_real \<circ> z) ps) c1), Fin (fold min (map (the_real \<circ> z) ps) c2))"
  using assms
proof (induction ps arbitrary: a1 a2 b1 b2 c1 c2)
  case Nil
  then show ?case by simp
next
  case (Cons p ps)
  then have fin: "is_finite (x p)" "is_finite (y p)" "is_finite (z p)"
    and rest: "list_all (\<lambda>p. is_finite (x p) \<and> is_finite (y p) \<and> is_finite (z p)) ps"
    by simp_all
  obtain a b c where abc: "x p = Fin a" "y p = Fin b" "z p = Fin c"
    using fin is_finite_the_real by blast
  have "p = \<lparr>word = word p, x = Fin a, y = Fin b, z = Fin c, magnitude = magnitude p\<rparr>"
    using abc by simp
  then have "extremesStep p (Fin a1, Fin a2, Fin b1, Fin b2, Fin c1, Fin c2)
      = (Fin (max a a1), Fin (min a a2), Fin (max b b1), Fin (min b b2),
         Fin (max c c1), Fin (min c c2))"
    using extremesStep_finite by metis
  then show ?case
    using Cons.IH [OF rest] abc by simp
qed

lemma extremesOf_finite:
  assumes "list_all (\<lambda>p. is_finite (x p) \<and> is_finite (y p) \<and> is_finite (z p)) ps"
  shows "extremesOf ps
       = (Fin (extremeAbove (map (the_real \<circ> x) ps)), Fin (extremeBelow (map (the_real \<circ> x) ps)),
          Fin (extremeAbove (map (the_real \<circ> y) ps)), Fin (extremeBelow (map (the_real \<circ> y) ps)),
          Fin (extremeAbove (map (the_real \<circ> z) ps)), Fin (extremeBelow (map (the_real \<circ> z) ps)))"
  unfolding extremesOf_def fold_extremesStep_finite [OF assms]
  by (simp only: fold_max_extremeAbove fold_min_extremeBelow)

text \<open>
  C6: when the coordinates of the projected words are finite numbers, each beacon lies
  on its own axis at 1.2 times the extreme coordinate of the projected words on its side
  of that axis, which is 0 when no projected word lies on that side, and at 0 on the
  other two axes.
\<close>

theorem beacon_extent:
  assumes "list_all (\<lambda>p. is_finite (x p) \<and> is_finite (y p) \<and> is_finite (z p)) ps"
  shows "getBeaconPositions axs ps =
    [\<lparr>word = xNeg axs, x = Fin (1.2 * extremeBelow (map (the_real \<circ> x) ps)),
      y = Fin 0, z = Fin 0, axis = ''x-''\<rparr>,
     \<lparr>word = xPos axs, x = Fin (1.2 * extremeAbove (map (the_real \<circ> x) ps)),
      y = Fin 0, z = Fin 0, axis = ''x+''\<rparr>,
     \<lparr>word = yPos axs, x = Fin 0, y = Fin (1.2 * extremeAbove (map (the_real \<circ> y) ps)),
      z = Fin 0, axis = ''y+''\<rparr>,
     \<lparr>word = yNeg axs, x = Fin 0, y = Fin (1.2 * extremeBelow (map (the_real \<circ> y) ps)),
      z = Fin 0, axis = ''y-''\<rparr>,
     \<lparr>word = zPos axs, x = Fin 0, y = Fin 0,
      z = Fin (1.2 * extremeAbove (map (the_real \<circ> z) ps)), axis = ''z+''\<rparr>,
     \<lparr>word = zNeg axs, x = Fin 0, y = Fin 0,
      z = Fin (1.2 * extremeBelow (map (the_real \<circ> z) ps)), axis = ''z-''\<rparr>]"
  by (simp add: getBeaconPositions_def extremesOf_finite [OF assms] pad_def mult.commute)

theorem beacon_extent_witness:
  "getBeaconPositions
     \<lparr>xPos = ''hot'', xNeg = ''cold'', yPos = ''high'', yNeg = ''low'',
      zPos = ''new'', zNeg = ''old''\<rparr>
     [\<lparr>word = Some ''cat'', x = Fin 80, y = Fin (- 40), z = Fin 0, magnitude = Fin 1\<rparr>,
      \<lparr>word = Some ''sun'', x = Fin 20, y = Fin 10, z = Fin 0, magnitude = Fin 1\<rparr>]
   = [\<lparr>word = ''cold'', x = Fin 0, y = Fin 0, z = Fin 0, axis = ''x-''\<rparr>,
      \<lparr>word = ''hot'', x = Fin 96, y = Fin 0, z = Fin 0, axis = ''x+''\<rparr>,
      \<lparr>word = ''high'', x = Fin 0, y = Fin 12, z = Fin 0, axis = ''y+''\<rparr>,
      \<lparr>word = ''low'', x = Fin 0, y = Fin (- 48), z = Fin 0, axis = ''y-''\<rparr>,
      \<lparr>word = ''new'', x = Fin 0, y = Fin 0, z = Fin 0, axis = ''z+''\<rparr>,
      \<lparr>word = ''old'', x = Fin 0, y = Fin 0, z = Fin 0, axis = ''z-''\<rparr>]"
  using beacon_extent
    [of "[\<lparr>word = Some ''cat'', x = Fin 80, y = Fin (- 40), z = Fin 0, magnitude = Fin 1\<rparr>,
          \<lparr>word = Some ''sun'', x = Fin 20, y = Fin 10, z = Fin 0, magnitude = Fin 1\<rparr>]"
        "\<lparr>xPos = ''hot'', xNeg = ''cold'', yPos = ''high'', yNeg = ''low'',
          zPos = ''new'', zNeg = ''old''\<rparr>"]
  by (simp add: extremeAbove_def extremeBelow_def)

section \<open>Level of detail\<close>

lemma classifySprite_culled:
  assumes "c < d"
  shows "classifySprite \<lparr>innerFade = i', nearDistance = n', farDistance = f', cullDistance = Fin c\<rparr> (Fin d) s
       = s\<lparr>visible := False\<rparr>"
  using assms by (simp add: classifySprite_def)

lemma classifySprite_bands:
  assumes "i < n" and "n < f" and "f < c" and "baseOpacity s = Fin b" and "0 \<le> d" and "d \<le> c"
  shows "classifySprite \<lparr>innerFade = Fin i, nearDistance = Fin n, farDistance = Fin f,
                         cullDistance = Fin c\<rparr> (Fin d) s
       = s\<lparr>visible := True, opacity := Fin (bandOpacity i n f c b d)\<rparr>"
  using assms by (auto simp add: classifySprite_def bandOpacity_def jlt_def jsub_def Let_def)

lemma bandOpacity_fade_out:
  assumes "i < n" and "n < f" and "f < c" and "0 < b" and "f \<le> d1" and "d1 < d2" and "d2 \<le> c"
  shows "bandOpacity i n f c b d2 < bandOpacity i n f c b d1"
proof -
  define t1 where "t1 = (d1 - f) / (c - f)"
  define t2 where "t2 = (d2 - f) / (c - f)"
  have "t1 < t2"
    unfolding t1_def t2_def using assms by (simp add: divide_strict_right_mono)
  then have "b * (1 - t2) < b * (1 - t1)"
    using assms(4) by simp
  moreover have "bandOpacity i n f c b d1 = b * (1 - t1)"
    unfolding t1_def using assms by (cases "d1 = f") (simp_all add: bandOpacity_def)
  moreover have "bandOpacity i n f c b d2 = b * (1 - t2)"
    unfolding t2_def using assms by (simp add: bandOpacity_def)
  ultimately show ?thesis
    by simp
qed

lemma bandOpacity_plateau:
  assumes "i < n" and "n \<le> d" and "d \<le> f"
  shows "bandOpacity i n f c b d = b"
  using assms by (simp add: bandOpacity_def)

lemma bandOpacity_inner:
  assumes "0 < (b::real)" and "0 \<le> d" and "d < i"
  shows "b * (d / i) * 0.5 < b * 0.5"
proof -
  define t where "t = d / i"
  have "0 < i"
    using assms by linarith
  then have "t < 1"
    unfolding t_def using assms by (simp add: divide_less_eq_1_pos)
  then have "b * t < b * 1"
    using assms(1) by (intro mult_strict_left_mono)
  then show ?thesis
    unfolding t_def by simp
qed

lemma bandOpacity_fade_in:
  assumes "0 < (b::real)" and "i < n" and "i \<le> d"
  shows "b * 0.5 \<le> b * (0.5 + (d - i) / (n - i) * 0.5)"
    and "d < n \<Longrightarrow> b * (0.5 + (d - i) / (n - i) * 0.5) < b"
    and "d = n \<Longrightarrow> b * (0.5 + (d - i) / (n - i) * 0.5) = b"
proof -
  define t where "t = (d - i) / (n - i)"
  have "0 \<le> t"
    unfolding t_def using assms by (intro divide_nonneg_nonneg) simp_all
  then have "(0.5::real) \<le> 0.5 + t * 0.5"
    by simp
  then show "b * 0.5 \<le> b * (0.5 + (d - i) / (n - i) * 0.5)"
    unfolding t_def using assms(1) by (intro mult_left_mono) simp_all
  show "b * (0.5 + (d - i) / (n - i) * 0.5) < b" if "d < n"
  proof -
    have "t < 1"
      unfolding t_def using that assms by (simp add: divide_less_eq_1_pos)
    then have "0.5 + t * 0.5 < (1::real)"
      by simp
    then have "b * (0.5 + t * 0.5) < b * 1"
      using assms(1) by (intro mult_strict_left_mono)
    then show ?thesis
      unfolding t_def by simp
  qed
  show "b * (0.5 + (d - i) / (n - i) * 0.5) = b" if "d = n"
    using that assms by simp
qed

lemma bandOpacity_le:
  assumes "i < n" and "n < f" and "f < c" and "0 < b" and "0 \<le> d" and "d \<le> c"
  shows "bandOpacity i n f c b d \<le> b"
proof -
  consider "f < d" | "d \<le> f" "d < i" | "d \<le> f" "i \<le> d" "d < n" | "d \<le> f" "n \<le> d"
    by linarith
  then show ?thesis
  proof cases
    case 1
    define t where "t = (d - f) / (c - f)"
    have "0 \<le> t"
      unfolding t_def using 1 assms by (intro divide_nonneg_nonneg) simp_all
    then have "b * (1 - t) \<le> b * 1"
      using assms(4) by (intro mult_left_mono) simp_all
    with 1 show ?thesis
      unfolding t_def by (simp add: bandOpacity_def)
  next
    case 2
    with bandOpacity_inner [OF assms(4,5), of i] assms(4) show ?thesis
      by (simp add: bandOpacity_def)
  next
    case 3
    with bandOpacity_fade_in(2) [OF assms(4,1), of d] show ?thesis
      by (simp add: bandOpacity_def)
  next
    case 4
    with assms show ?thesis
      by (simp add: bandOpacity_def)
  qed
qed

lemma bandOpacity_near:
  assumes "i < n" and "n < f" and "0 < b" and "0 \<le> d1" and "d1 < d2" and "d2 \<le> n"
  shows "bandOpacity i n f c b d1 < bandOpacity i n f c b d2"
proof -
  have middle: "bandOpacity i n f c b d = b * (0.5 + (d - i) / (n - i) * 0.5)"
    if "i \<le> d" "d \<le> n" for d
    using that assms by (cases "d = n") (simp_all add: bandOpacity_def)
  consider "d2 < i" | "d1 < i" "i \<le> d2" | "i \<le> d1"
    by linarith
  then show ?thesis
  proof cases
    case 1
    define t1 where "t1 = d1 / i"
    define t2 where "t2 = d2 / i"
    have "t1 < t2"
      unfolding t1_def t2_def using 1 assms by (simp add: divide_strict_right_mono)
    then have "b * t1 < b * t2"
      using assms(3) by (intro mult_strict_left_mono)
    then have "b * t1 * 0.5 < b * t2 * 0.5"
      by simp
    moreover have "bandOpacity i n f c b d1 = b * t1 * 0.5" "bandOpacity i n f c b d2 = b * t2 * 0.5"
      unfolding t1_def t2_def using 1 assms by (simp_all add: bandOpacity_def)
    ultimately show ?thesis
      by simp
  next
    case 2
    have "bandOpacity i n f c b d1 = b * (d1 / i) * 0.5"
      using 2 assms by (simp add: bandOpacity_def)
    with bandOpacity_inner [OF assms(3,4) 2(1)] bandOpacity_fade_in(1) [OF assms(3,1) 2(2)]
      middle [OF 2(2) assms(6)]
    show ?thesis
      by linarith
  next
    case 3
    define t1 where "t1 = (d1 - i) / (n - i)"
    define t2 where "t2 = (d2 - i) / (n - i)"
    have "t1 < t2"
      unfolding t1_def t2_def using 3 assms by (simp add: divide_strict_right_mono)
    then have "0.5 + t1 * 0.5 < 0.5 + t2 * 0.5"
      by simp
    then have "b * (0.5 + t1 * 0.5) < b * (0.5 + t2 * 0.5)"
      using assms(3) by (intro mult_strict_left_mono)
    moreover have "bandOpacity i n f c b d1 = b * (0.5 + t1 * 0.5)"
      "bandOpacity i n f c b d2 = b * (0.5 + t2 * 0.5)"
      unfolding t1_def t2_def using middle [of d1] middle [of d2] 3 assms by simp_all
    ultimately show ?thesis
      by simp
  qed
qed

text \<open>
  The distance of two points with finite coordinates is a finite number that is not
  negative, so the distances \<open>Fin d\<close> with \<open>0 \<le> d\<close> are the ones that the loop passes on.
\<close>

lemma distanceTo_finite:
  "distanceTo (Fin px, Fin py, Fin pz) (Fin qx, Fin qy, Fin qz)
   = Fin (sqrt ((px - qx)\<^sup>2 + (py - qy)\<^sup>2 + (pz - qz)\<^sup>2))"
  "0 \<le> sqrt ((px - qx)\<^sup>2 + (py - qy)\<^sup>2 + (pz - qz)\<^sup>2)"
proof -
  have "0 \<le> (px - qx) * (px - qx) + (py - qy) * (py - qy) + (pz - qz) * (pz - qz)"
    by (intro add_nonneg_nonneg) simp_all
  then show "distanceTo (Fin px, Fin py, Fin pz) (Fin qx, Fin qy, Fin qz)
      = Fin (sqrt ((px - qx)\<^sup>2 + (py - qy)\<^sup>2 + (pz - qz)\<^sup>2))"
    by (simp add: distanceTo_def jsquare_def jsub_def power2_eq_square not_less [symmetric])
  show "0 \<le> sqrt ((px - qx)\<^sup>2 + (py - qy)\<^sup>2 + (pz - qz)\<^sup>2)"
    by simp
qed

lemma sqrt_squares: "sqrt 90000 = 300" "sqrt 10000 = 100" "sqrt 2500 = 50"
  by (rule real_sqrt_unique; simp)+

text \<open>
  C7, as stated, fails in two places. Beyond the cull distance the loop clears the
  \<^verbatim>\<open>visible\<close> flag and leaves \<^verbatim>\<open>material.opacity\<close> as it was: the sprite at
  distance 300 keeps the opacity 0.8 with which it was created. And between the near and
  the far distance the opacity does not increase strictly: at the distances 100 and 50 it
  is the same base opacity 0.9.
\<close>

theorem lod_counterexample:
  "updateWordVisibility
     [\<lparr>position = (Fin 300, Fin 0, Fin 0), visible = False, opacity = Fin 0.8,
       userBaseOpacity = Fin 0.9\<rparr>,
      \<lparr>position = (Fin 100, Fin 0, Fin 0), visible = False, opacity = Fin 0.8,
       userBaseOpacity = Fin 0.9\<rparr>,
      \<lparr>position = (Fin 50, Fin 0, Fin 0), visible = False, opacity = Fin 0.8,
       userBaseOpacity = Fin 0.9\<rparr>]
     (Fin 0, Fin 0, Fin 0) defaultOptions
   = [\<lparr>position = (Fin 300, Fin 0, Fin 0), visible = False, opacity = Fin 0.8,
       userBaseOpacity = Fin 0.9\<rparr>,
      \<lparr>position = (Fin 100, Fin 0, Fin 0), visible = True, opacity = Fin 0.9,
       userBaseOpacity = Fin 0.9\<rparr>,
      \<lparr>position = (Fin 50, Fin 0, Fin 0), visible = True, opacity = Fin 0.9,
       userBaseOpacity = Fin 0.9\<rparr>]"
  by (simp add: updateWordVisibility_def updateSprite_def distanceTo_def jsquare_def jsub_def
      sqrt_squares classifySprite_def defaultOptions_def jlt_def baseOpacity_def jor_def
      truthy_def)

text \<open>
  C7, amended: for finite thresholds \<open>i < n < f < c\<close> (inner fade, near, far and cull
  distance) and a positive base opacity \<open>b\<close>, the loop body at the distance \<open>d \<ge> 0\<close>
  \<^item> beyond \<open>c\<close> only clears the \<^verbatim>\<open>visible\<close> flag, and leaves the opacity as it was;
  \<^item> up to \<open>c\<close> sets the flag, with an opacity of at most \<open>b\<close>;
  \<^item> gives an opacity that increases strictly as \<open>d\<close> decreases from \<open>c\<close> to \<open>f\<close>;
  \<^item> gives the opacity \<open>b\<close> between \<open>n\<close> and \<open>f\<close>;
  \<^item> gives an opacity that decreases strictly as \<open>d\<close> decreases from \<open>n\<close> to 0, so
    also below \<open>i\<close>.
  With the default thresholds a word at distance 300 is made invisible, a word at distance
  100 has the opacity \<open>b\<close>, and a word at distance 2 has the opacity \<open>0.2 b\<close>, less than
  \<open>0.5 b\<close>.
\<close>

theorem lod_opacity_bands:
  assumes "i < n" and "n < f" and "f < c" and "baseOpacity s = Fin b" and "0 < b"
  shows "(\<forall>d. c < d \<longrightarrow>
            classifySprite \<lparr>innerFade = Fin i, nearDistance = Fin n, farDistance = Fin f,
                             cullDistance = Fin c\<rparr> (Fin d) s = s\<lparr>visible := False\<rparr>)
       \<and> (\<forall>d. 0 \<le> d \<and> d \<le> c \<longrightarrow>
            visible (classifySprite \<lparr>innerFade = Fin i, nearDistance = Fin n,
                       farDistance = Fin f, cullDistance = Fin c\<rparr> (Fin d) s)
            \<and> \<not> jgt (opacity (classifySprite \<lparr>innerFade = Fin i, nearDistance = Fin n,
                         farDistance = Fin f, cullDistance = Fin c\<rparr> (Fin d) s)) (Fin b))
       \<and> (\<forall>d1 d2. 0 \<le> d1 \<and> f \<le> d1 \<and> d1 < d2 \<and> d2 \<le> c \<longrightarrow>
            jgt (opacity (classifySprite \<lparr>innerFade = Fin i, nearDistance = Fin n,
                   farDistance = Fin f, cullDistance = Fin c\<rparr> (Fin d1) s))
                (opacity (classifySprite \<lparr>innerFade = Fin i, nearDistance = Fin n,
                   farDistance = Fin f, cullDistance = Fin c\<rparr> (Fin d2) s)))
       \<and> (\<forall>d. 0 \<le> d \<and> n \<le> d \<and> d \<le> f \<longrightarrow>
            opacity (classifySprite \<lparr>innerFade = Fin i, nearDistance = Fin n,
                   farDistance = Fin f, cullDistance = Fin c\<rparr> (Fin d) s) = Fin b)
       \<and> (\<forall>d1 d2. 0 \<le> d1 \<and> d1 < d2 \<and> d2 \<le> n \<longrightarrow>
            jgt (opacity (classifySprite \<lparr>innerFade = Fin i, nearDistance = Fin n,
                   farDistance = Fin f, cullDistance = Fin c\<rparr> (Fin d2) s))
                (opacity (classifySprite \<lparr>innerFade = Fin i, nearDistance = Fin n,
                   farDistance = Fin f, cullDistance = Fin c\<rparr> (Fin d1) s)))
       \<and> classifySprite defaultOptions (Fin 300) s = s\<lparr>visible := False\<rparr>
       \<and> opacity (classifySprite defaultOptions (Fin 100) s) = Fin b
       \<and> opacity (classifySprite defaultOptions (Fin 2) s) = Fin (0.2 * b)
       \<and> 0.2 * b < 0.5 * b"
proof -
  let ?opts = "\<lparr>innerFade = Fin i, nearDistance = Fin n, farDistance = Fin f,
                cullDistance = Fin c\<rparr>"
  have band: "classifySprite ?opts (Fin d) s
      = s\<lparr>visible := True, opacity := Fin (bandOpacity i n f c b d)\<rparr>"
    if "0 \<le> d" "d \<le> c" for d
    using assms(1-4) that by (rule classifySprite_bands)
  have culled: "\<forall>d. c < d \<longrightarrow> classifySprite ?opts (Fin d) s = s\<lparr>visible := False\<rparr>"
    by (simp add: classifySprite_culled)
  have atmost: "\<forall>d. 0 \<le> d \<and> d \<le> c \<longrightarrow>
      visible (classifySprite ?opts (Fin d) s)
      \<and> \<not> jgt (opacity (classifySprite ?opts (Fin d) s)) (Fin b)"
    using bandOpacity_le [OF assms(1-3,5)] by (simp add: band not_less)
  have fade_out: "\<forall>d1 d2. 0 \<le> d1 \<and> f \<le> d1 \<and> d1 < d2 \<and> d2 \<le> c \<longrightarrow>
      jgt (opacity (classifySprite ?opts (Fin d1) s)) (opacity (classifySprite ?opts (Fin d2) s))"
  proof (intro allI impI)
    fix d1 d2
    assume d: "0 \<le> d1 \<and> f \<le> d1 \<and> d1 < d2 \<and> d2 \<le> c"
    then have "0 \<le> d1" "d1 \<le> c" "0 \<le> d2" "d2 \<le> c"
      by simp_all
    with d bandOpacity_fade_out [OF assms(1-3,5), of d1 d2]
    show "jgt (opacity (classifySprite ?opts (Fin d1) s))
              (opacity (classifySprite ?opts (Fin d2) s))"
      by (simp add: band)
  qed
  have plateau: "\<forall>d. 0 \<le> d \<and> n \<le> d \<and> d \<le> f \<longrightarrow>
      opacity (classifySprite ?opts (Fin d) s) = Fin b"
  proof (intro allI impI)
    fix d
    assume d: "0 \<le> d \<and> n \<le> d \<and> d \<le> f"
    then have "0 \<le> d" "d \<le> c"
      using assms(3) by simp_all
    with d bandOpacity_plateau [OF assms(1), of d f c b]
    show "opacity (classifySprite ?opts (Fin d) s) = Fin b"
      by (simp add: band)
  qed
  have near: "\<forall>d1 d2. 0 \<le> d1 \<and> d1 < d2 \<and> d2 \<le> n \<longrightarrow>
      jgt (opacity (classifySprite ?opts (Fin d2) s)) (opacity (classifySprite ?opts (Fin d1) s))"
  proof (intro allI impI)
    fix d1 d2
    assume d: "0 \<le> d1 \<and> d1 < d2 \<and> d2 \<le> n"
    then have "0 \<le> d1" "d1 \<le> c" "0 \<le> d2" "d2 \<le> c"
      using assms(2,3) by simp_all
    with d bandOpacity_near [OF assms(1,2,5), of d1 d2 c]
    show "jgt (opacity (classifySprite ?opts (Fin d2) s))
              (opacity (classifySprite ?opts (Fin d1) s))"
      by (simp add: band)
  qed
  have far: "classifySprite defaultOptions (Fin 300) s = s\<lparr>visible := False\<rparr>"
    by (simp add: defaultOptions_def classifySprite_culled)
  have sweet: "opacity (classifySprite defaultOptions (Fin 100) s) = Fin b"
    using classifySprite_bands [of 5 15 150 250 s b 100] assms(4)
    by (simp add: defaultOptions_def bandOpacity_def)
  have close: "opacity (classifySprite defaultOptions (Fin 2) s) = Fin (0.2 * b)"
    using classifySprite_bands [of 5 15 150 250 s b 2] assms(4)
    by (simp add: defaultOptions_def bandOpacity_def)
  have less: "0.2 * b < 0.5 * b"
    using assms(5) by simp
  from culled atmost fade_out plateau near far sweet close less show ?thesis
    by blast
qed

theorem lod_opacity_bands_witness:
  "classifySprite defaultOptions (Fin 300)
     \<lparr>position = (Fin 300, Fin 0, Fin 0), visible = True, opacity = Fin 0.4,
      userBaseOpacity = Fin 0.9\<rparr>
   = \<lparr>position = (Fin 300, Fin 0, Fin 0), visible = False, opacity = Fin 0.4,
      userBaseOpacity = Fin 0.9\<rparr>
   \<and> jgt (opacity (classifySprite defaultOptions (Fin 160)
            \<lparr>position = (Fin 300, Fin 0, Fin 0), visible = True, opacity = Fin 0.4,
             userBaseOpacity = Fin 0.9\<rparr>))
          (opacity (classifySprite defaultOptions (Fin 200)
            \<lparr>position = (Fin 300, Fin 0, Fin 0), visible = True, opacity = Fin 0.4,
             userBaseOpacity = Fin 0.9\<rparr>))
   \<and> opacity (classifySprite defaultOptions (Fin 100)
        \<lparr>position = (Fin 300, Fin 0, Fin 0), visible = True, opacity = Fin 0.4,
         userBaseOpacity = Fin 0.9\<rparr>) = Fin 0.9
   \<and> jgt (opacity (classifySprite defaultOptions (Fin 10)
            \<lparr>position = (Fin 300, Fin 0, Fin 0), visible = True, opacity = Fin 0.4,
             userBaseOpacity = Fin 0.9\<rparr>))
          (opacity (classifySprite defaultOptions (Fin 2)
            \<lparr>position = (Fin 300, Fin 0, Fin 0), visible = True, opacity = Fin 0.4,
             userBaseOpacity = Fin 0.9\<rparr>))"
proof -
  let ?s = "\<lparr>position = (Fin 300, Fin 0, Fin 0), visible = True, opacity = Fin 0.4,
             userBaseOpacity = Fin 0.9\<rparr>"
  have base: "baseOpacity ?s = Fin 0.9"
    by (simp add: baseOpacity_def jor_def truthy_def)
  have order: "(5::real) < 15" "(15::real) < 150" "(150::real) < 250" "(0::real) < 0.9"
    by simp_all
  note bands = lod_opacity_bands [OF order(1-3) base order(4), folded defaultOptions_def]
  have "classifySprite defaultOptions (Fin 300) ?s = ?s\<lparr>visible := False\<rparr>"
    using bands by blast
  moreover have "jgt (opacity (classifySprite defaultOptions (Fin 160) ?s))
                     (opacity (classifySprite defaultOptions (Fin 200) ?s))"
  proof -
    have "(0::real) \<le> 160 \<and> (150::real) \<le> 160 \<and> (160::real) < 200 \<and> (200::real) \<le> 250"
      by simp
    with bands show ?thesis
      by blast
  qed
  moreover have "opacity (classifySprite defaultOptions (Fin 100) ?s) = Fin 0.9"
    using bands by blast
  moreover have "jgt (opacity (classifySprite defaultOptions (Fin 10) ?s))
                     (opacity (classifySprite defaultOptions (Fin 2) ?s))"
  proof -
    have "(0::real) \<le> 2 \<and> (2::real) < 10 \<and> (10::real) \<le> 15"
      by simp
    with bands show ?thesis
      by blast
  qed
  ultimately show ?thesis
    by simp
qed

section \<open>Normalization\<close>

lemma foldl_jadd_finite: "foldl jadd (Fin a) (map Fin rs) = Fin (a + sum_list rs)"
  by (induction rs arbitrary: a) (simp_all add: add.assoc)

lemma stddev_mean_finite:
  assumes "rs \<noteq> []"
  shows "stddev_mean (map Fin rs) = Fin (mean rs)"
  using assms by (simp add: stddev_mean_def foldl_jadd_finite mean_def)

lemma foldl_squares_finite:
  "foldl (\<lambda>a v. jadd a (jsquare (jsub v (Fin m)))) (Fin a) (map Fin rs)
   = Fin (a + sum_list (map (\<lambda>v. (v - m)\<^sup>2) rs))"
  by (induction rs arbitrary: a) (simp_all add: jsquare_def jsub_def power2_eq_square add.assoc)

lemma stddev_variance_finite:
  assumes "rs \<noteq> []"
  shows "stddev_variance (map Fin rs)
       = Fin (sum_list (map (\<lambda>v. (v - mean rs)\<^sup>2) rs) / real (length rs))"
  using assms by (simp add: stddev_variance_def stddev_mean_finite foldl_squares_finite)

lemma variance_nonneg: "0 \<le> sum_list (map (\<lambda>v. (v - m)\<^sup>2) rs) / real (length rs)"
  for m :: real
  by (intro divide_nonneg_nonneg sum_list_nonneg) auto

lemma stddev_finite:
  assumes "rs \<noteq> []"
  shows "stddev (map Fin rs) = Fin (if popStdDev rs = 0 then 1 else popStdDev rs)"
  using assms variance_nonneg [of "mean rs" rs]
  by (simp add: stddev_def stddev_variance_finite popStdDev_def jor_def truthy_def
      not_less [symmetric])

lemma popStdDev_nonneg: "0 \<le> popStdDev rs"
  by (simp add: popStdDev_def variance_nonneg)

lemma popStdDev_zero_iff:
  assumes "rs \<noteq> []"
  shows "popStdDev rs = 0 \<longleftrightarrow> (\<forall>v\<in>set rs. v = mean rs)"
proof -
  have "popStdDev rs = 0 \<longleftrightarrow> sum_list (map (\<lambda>v. (v - mean rs)\<^sup>2) rs) = 0"
    using assms by (simp add: popStdDev_def)
  also have "\<dots> \<longleftrightarrow> (\<forall>q\<in>set (map (\<lambda>v. (v - mean rs)\<^sup>2) rs). q = 0)"
    by (intro sum_list_nonneg_eq_0_iff) auto
  also have "\<dots> \<longleftrightarrow> (\<forall>v\<in>set rs. v = mean rs)"
    by auto
  finally show ?thesis .
qed

lemma mean_replicate:
  assumes "rs \<noteq> []" and "\<forall>v\<in>set rs. v = c"
  shows "mean rs = c"
proof -
  have "rs = replicate (length rs) c"
    using assms(2) by (simp add: replicate_length_same)
  then have "sum_list rs = real (length rs) * c"
    by (metis sum_list_replicate)
  with assms(1) show ?thesis
    by (simp add: mean_def)
qed

lemma popStdDev_zero_allIdentical:
  assumes "rs \<noteq> []"
  shows "popStdDev rs = 0 \<longleftrightarrow> allIdentical rs"
proof
  assume "popStdDev rs = 0"
  then have all: "\<forall>v\<in>set rs. v = mean rs"
    using assms popStdDev_zero_iff by blast
  moreover have "hd rs \<in> set rs"
    using assms by simp
  ultimately have "hd rs = mean rs"
    by blast
  with all show "allIdentical rs"
    by (simp add: allIdentical_def list_all_iff)
next
  assume "allIdentical rs"
  then have same: "\<forall>v\<in>set rs. v = hd rs"
    by (simp add: allIdentical_def list_all_iff)
  with assms have "mean rs = hd rs"
    by (rule mean_replicate)
  with same show "popStdDev rs = 0"
    using assms popStdDev_zero_iff by simp
qed

lemma sum_list_divide: "sum_list (map (\<lambda>v. g v / k) rs) = sum_list (map g rs) / k"
  for k :: real
  by (induction rs) (simp_all add: add_divide_distrib)

lemma mean_divide: "mean (map (\<lambda>v. v / s) rs) = mean rs / s"
  using sum_list_divide [of "\<lambda>v. v" s rs] by (simp add: mean_def)

lemma popStdDev_divide:
  assumes "0 < s"
  shows "popStdDev (map (\<lambda>v. v / s) rs) = popStdDev rs / s"
proof -
  have sq: "(v / s - mean rs / s)\<^sup>2 = (v - mean rs)\<^sup>2 / s\<^sup>2" for v
    by (simp add: diff_divide_distrib [symmetric] power_divide)
  have "sum_list (map (\<lambda>v. (v - mean rs)\<^sup>2 / s\<^sup>2) rs)
      = sum_list (map (\<lambda>v. (v - mean rs)\<^sup>2) rs) / s\<^sup>2"
    by (rule sum_list_divide)
  then have "popStdDev (map (\<lambda>v. v / s) rs)
      = sqrt (sum_list (map (\<lambda>v. (v - mean rs)\<^sup>2) rs) / real (length rs) / s\<^sup>2)"
    by (simp add: popStdDev_def mean_divide comp_def sq)
  also have "\<dots> = sqrt (sum_list (map (\<lambda>v. (v - mean rs)\<^sup>2) rs) / real (length rs)) / sqrt (s\<^sup>2)"
    by (rule real_sqrt_divide)
  also have "\<dots> = popStdDev rs / s"
    using assms by (simp add: popStdDev_def)
  finally show ?thesis .
qed

lemma popStdDev_normalized:
  assumes "rs \<noteq> []" and "\<not> allIdentical rs"
  shows "popStdDev (map (\<lambda>v. v / popStdDev rs) rs) = 1"
proof -
  have "popStdDev rs \<noteq> 0"
    using assms popStdDev_zero_allIdentical by blast
  with popStdDev_nonneg [of rs] have "0 < popStdDev rs"
    by simp
  then show ?thesis
    by (simp add: popStdDev_divide)
qed

lemma finite_list:
  assumes "list_all is_finite a"
  shows "a = map Fin (map the_real a)"
proof -
  have "map (Fin \<circ> the_real) a = a"
    using assms by (intro map_idI) (auto simp add: list_all_iff is_finite_the_real [symmetric])
  then show ?thesis
    by simp
qed

lemma allIdentical_Fin:
  assumes "rs \<noteq> []"
  shows "allIdentical (map Fin rs) \<longleftrightarrow> allIdentical rs"
  using assms by (simp add: allIdentical_def list_all_iff hd_map)

text \<open>One axis: the raw coordinates \<open>rs\<close>, divided by their \<^verbatim>\<open>stddev\<close>, at the scale 1.\<close>

lemma axis_normalized:
  assumes "rs \<noteq> []"
  shows "(\<not> allIdentical (map Fin rs) \<longrightarrow>
           popStdDev (map the_real
             (map (\<lambda>v. jmul (jdiv v (stddev (map Fin rs))) (Fin 1)) (map Fin rs))) = 1)
       \<and> (allIdentical (map Fin rs) \<longrightarrow>
           stddev (map Fin rs) = Fin 1
           \<and> map (\<lambda>v. jmul (jdiv v (stddev (map Fin rs))) (Fin 1)) (map Fin rs) = map Fin rs)"
proof (intro conjI impI)
  assume "\<not> allIdentical (map Fin rs)"
  then have spread: "\<not> allIdentical rs"
    using assms allIdentical_Fin by blast
  then have nz: "popStdDev rs \<noteq> 0"
    using assms popStdDev_zero_allIdentical by blast
  then have "stddev (map Fin rs) = Fin (popStdDev rs)"
    using assms by (simp add: stddev_finite)
  then have "map the_real (map (\<lambda>v. jmul (jdiv v (stddev (map Fin rs))) (Fin 1)) (map Fin rs))
      = map (\<lambda>v. v / popStdDev rs) rs"
    using nz by (simp add: jmul_one comp_def)
  then show "popStdDev (map the_real
      (map (\<lambda>v. jmul (jdiv v (stddev (map Fin rs))) (Fin 1)) (map Fin rs))) = 1"
    using popStdDev_normalized [OF assms spread] by (simp only:)
next
  assume "allIdentical (map Fin rs)"
  then have "popStdDev rs = 0"
    using assms allIdentical_Fin popStdDev_zero_allIdentical by blast
  then show one: "stddev (map Fin rs) = Fin 1"
    using assms by (simp add: stddev_finite)
  show "map (\<lambda>v. jmul (jdiv v (stddev (map Fin rs))) (Fin 1)) (map Fin rs) = map Fin rs"
    by (simp add: one jmul_one)
qed

text \<open>The raw coordinates of finite vectors are finite.\<close>

lemma getVector_finite:
  assumes "list_all is_finite vs"
  shows "list_all is_finite (getVector i vs d)" and "length (getVector i vs d) \<le> d"
proof -
  have "set (getVector i vs d) \<subseteq> set vs"
    by (auto simp add: getVector_def dest: in_set_takeD in_set_dropD)
  with assms show "list_all is_finite (getVector i vs d)"
    by (auto simp add: list_all_iff)
  show "length (getVector i vs d) \<le> d"
    by (simp add: getVector_def)
qed

lemma axisDiff_finite:
  assumes "list_all is_finite vec" and "list_all is_finite pos" and "list_all is_finite neg"
    and "length vec \<le> length pos" and "length vec \<le> length neg"
  shows "is_finite (axisDiff vec pos neg)"
proof -
  have "is_finite (cosineSimilarity (map Fin (map the_real vec)) (map Fin (map the_real pos)))"
    "is_finite (cosineSimilarity (map Fin (map the_real vec)) (map Fin (map the_real neg)))"
    using assms(4,5) by (intro cosineSimilarity_finite; simp)+
  then have "is_finite (cosineSimilarity vec pos)" "is_finite (cosineSimilarity vec neg)"
    using assms(1-3) finite_list by metis+
  then obtain p q where "cosineSimilarity vec pos = Fin p" "cosineSimilarity vec neg = Fin q"
    using is_finite_the_real by blast
  then show ?thesis
    by (simp add: axisDiff_def jsub_def)
qed

lemma rawPosition_finite:
  assumes "list_all is_finite (vectors vocab)"
    and "list_all (\<lambda>a. list_all is_finite a \<and> dims vocab \<le> length a) (axesValues axisVectors)"
  shows "is_finite (x (rawPosition vocab axisVectors idx))"
    and "is_finite (y (rawPosition vocab axisVectors idx))"
    and "is_finite (z (rawPosition vocab axisVectors idx))"
proof -
  let ?vec = "getVector idx (vectors vocab) (dims vocab)"
  note vec = getVector_finite [OF assms(1), of idx "dims vocab"]
  have ax: "list_all is_finite a" "length ?vec \<le> length a"
    if "a \<in> set (axesValues axisVectors)" for a
    using that assms(2) vec(2) by (auto simp add: list_all_iff)
  have mem: "xPos axisVectors \<in> set (axesValues axisVectors)"
    "xNeg axisVectors \<in> set (axesValues axisVectors)"
    "yPos axisVectors \<in> set (axesValues axisVectors)"
    "yNeg axisVectors \<in> set (axesValues axisVectors)"
    "zPos axisVectors \<in> set (axesValues axisVectors)"
    "zNeg axisVectors \<in> set (axesValues axisVectors)"
    by (simp_all add: axesValues_def)
  show "is_finite (x (rawPosition vocab axisVectors idx))"
    using axisDiff_finite [OF vec(1) ax(1) [OF mem(1)] ax(1) [OF mem(2)] ax(2) [OF mem(1)]
        ax(2) [OF mem(2)]]
    by (simp add: rawPosition_def Let_def)
  show "is_finite (y (rawPosition vocab axisVectors idx))"
    using axisDiff_finite [OF vec(1) ax(1) [OF mem(3)] ax(1) [OF mem(4)] ax(2) [OF mem(3)]
        ax(2) [OF mem(4)]]
    by (simp add: rawPosition_def Let_def)
  show "is_finite (z (rawPosition vocab axisVectors idx))"
    using axisDiff_finite [OF vec(1) ax(1) [OF mem(5)] ax(1) [OF mem(6)] ax(2) [OF mem(5)]
        ax(2) [OF mem(6)]]
    by (simp add: rawPosition_def Let_def)
qed

lemma projectWords_coordinates:
  "map x (projectWords vocab axisVectors sel scale)
   = map (\<lambda>v. jmul (jdiv v (stddev (map x (map (rawPosition vocab axisVectors) sel)))) scale)
       (map x (map (rawPosition vocab axisVectors) sel))"
  "map y (projectWords vocab axisVectors sel scale)
   = map (\<lambda>v. jmul (jdiv v (stddev (map y (map (rawPosition vocab axisVectors) sel)))) scale)
       (map y (map (rawPosition vocab axisVectors) sel))"
  "map z (projectWords vocab axisVectors sel scale)
   = map (\<lambda>v. jmul (jdiv v (stddev (map z (map (rawPosition vocab axisVectors) sel)))) scale)
       (map z (map (rawPosition vocab axisVectors) sel))"
  by (simp_all add: projectWords_def Let_def normalizeWord_def comp_def)

text \<open>
  Over the reals, where no operation rounds: for a non-empty list of selected indices,
  finite vocabulary vectors and finite axis vectors of at least the vocabulary's
  dimension, on each of the three axes, when the raw coordinates are not all identical,
  the population standard deviation of the coordinates that \<^verbatim>\<open>projectWords\<close>
  returns at the scale 1 is 1; and when the raw coordinates are all identical, their
  standard deviation is 0, \<^verbatim>\<open>stddev\<close> gives 1 instead and the division leaves the
  coordinates as they are. On doubles the second half fails, as the section on the
  normalization on doubles shows.
\<close>

lemma normalization_exact:
  assumes "selectedIndices \<noteq> []"
    and "list_all is_finite (vectors vocab)"
    and "list_all (\<lambda>a. list_all is_finite a \<and> dims vocab \<le> length a) (axesValues axisVectors)"
  shows "(\<not> allIdentical (map x (map (rawPosition vocab axisVectors) selectedIndices)) \<longrightarrow>
           popStdDev (map the_real
             (map x (projectWords vocab axisVectors selectedIndices (Fin 1)))) = 1)
       \<and> (allIdentical (map x (map (rawPosition vocab axisVectors) selectedIndices)) \<longrightarrow>
           stddev (map x (map (rawPosition vocab axisVectors) selectedIndices)) = Fin 1
           \<and> map x (projectWords vocab axisVectors selectedIndices (Fin 1))
             = map x (map (rawPosition vocab axisVectors) selectedIndices))
       \<and> (\<not> allIdentical (map y (map (rawPosition vocab axisVectors) selectedIndices)) \<longrightarrow>
           popStdDev (map the_real
             (map y (projectWords vocab axisVectors selectedIndices (Fin 1)))) = 1)
       \<and> (allIdentical (map y (map (rawPosition vocab axisVectors) selectedIndices)) \<longrightarrow>
           stddev (map y (map (rawPosition vocab axisVectors) selectedIndices)) = Fin 1
           \<and> map y (projectWords vocab axisVectors selectedIndices (Fin 1))
             = map y (map (rawPosition vocab axisVectors) selectedIndices))
       \<and> (\<not> allIdentical (map z (map (rawPosition vocab axisVectors) selectedIndices)) \<longrightarrow>
           popStdDev (map the_real
             (map z (projectWords vocab axisVectors selectedIndices (Fin 1)))) = 1)
       \<and> (allIdentical (map z (map (rawPosition vocab axisVectors) selectedIndices)) \<longrightarrow>
           stddev (map z (map (rawPosition vocab axisVectors) selectedIndices)) = Fin 1
           \<and> map z (projectWords vocab axisVectors selectedIndices (Fin 1))
             = map z (map (rawPosition vocab axisVectors) selectedIndices))"
proof -
  let ?raw = "map (rawPosition vocab axisVectors) selectedIndices"
  note fin = rawPosition_finite [OF assms(2,3)]
  have "list_all is_finite (map x ?raw)" "list_all is_finite (map y ?raw)"
    "list_all is_finite (map z ?raw)"
    using fin by (simp_all add: list_all_iff)
  then obtain xs ys zs
    where raw: "map x ?raw = map Fin xs" "map y ?raw = map Fin ys" "map z ?raw = map Fin zs"
    using finite_list by blast
  have "map x ?raw \<noteq> []" "map y ?raw \<noteq> []" "map z ?raw \<noteq> []"
    using assms(1) by simp_all
  then have ne: "xs \<noteq> []" "ys \<noteq> []" "zs \<noteq> []"
    unfolding raw by simp_all
  show ?thesis
    unfolding projectWords_coordinates raw
    using axis_normalized [OF ne(1)] axis_normalized [OF ne(2)] axis_normalized [OF ne(3)]
    by blast
qed

lemma example_raw:
  "rawPosition exampleVocab exampleAxes 0
   = \<lparr>word = Some ''cat'', x = Fin 2, y = Fin 0, z = Fin 0\<rparr>"
  "rawPosition exampleVocab exampleAxes 2
   = \<lparr>word = Some ''sun'', x = Fin 0, y = Fin 2, z = Fin 0\<rparr>"
  by (simp_all add: rawPosition_def exampleVocab_def exampleAxes_def getVector_def
      axisDiff_def unit_cosines jsub_def word_at_def)

lemma normalization_exact_example:
  "popStdDev (map the_real (map x (projectWords exampleVocab exampleAxes [0, 2] (Fin 1)))) = 1
   \<and> popStdDev (map the_real (map y (projectWords exampleVocab exampleAxes [0, 2] (Fin 1)))) = 1
   \<and> stddev (map z (map (rawPosition exampleVocab exampleAxes) [0, 2])) = Fin 1
   \<and> map z (projectWords exampleVocab exampleAxes [0, 2] (Fin 1)) = [Fin 0, Fin 0]"
proof -
  note raw = example_raw
  have sel: "[0, 2] \<noteq> ([] :: nat list)"
    by simp
  have vecs: "list_all is_finite (vectors exampleVocab)"
    by (simp add: exampleVocab_def)
  have axs: "list_all (\<lambda>a. list_all is_finite a \<and> dims exampleVocab \<le> length a)
      (axesValues exampleAxes)"
    by (simp add: exampleVocab_def exampleAxes_def axesValues_def)
  have spread:
    "\<not> allIdentical (map x (map (rawPosition exampleVocab exampleAxes) [0, 2]))"
    "\<not> allIdentical (map y (map (rawPosition exampleVocab exampleAxes) [0, 2]))"
    "allIdentical (map z (map (rawPosition exampleVocab exampleAxes) [0, 2]))"
    by (simp_all add: raw allIdentical_def)
  have "map z (map (rawPosition exampleVocab exampleAxes) [0, 2]) = [Fin 0, Fin 0]"
    by (simp add: raw)
  with normalization_exact [OF sel vecs axs] spread show ?thesis
    by simp
qed

section \<open>The rounding of doubles: exact values\<close>

text \<open>
  A real that is an integer of fewer than 54 bits times a power of two within the range
  of the exponents is a double, and its own rounding.
\<close>

lemma roundEven_of_int: "roundEven (real_of_int n) = n"
  by (simp add: roundEven_def)

lemma roundEven_near:
  assumes "\<bar>q - real_of_int n\<bar> < 1 / 2"
  shows "roundEven q = n"
proof -
  have r: "round q = n"
    using assms by (rule round_unique')
  have "frac q \<noteq> 1 / 2"
  proof
    assume h: "frac q = 1 / 2"
    then have "q = real_of_int \<lfloor>q\<rfloor> + 1 / 2"
      by (simp add: frac_def)
    then have "q - real_of_int n = real_of_int (\<lfloor>q\<rfloor> - n) + 1 / 2"
      by simp
    then have "\<bar>real_of_int (\<lfloor>q\<rfloor> - n) + 1 / 2\<bar> < 1 / 2"
      using assms by metis
    then have "- 1 < real_of_int (\<lfloor>q\<rfloor> - n)" "real_of_int (\<lfloor>q\<rfloor> - n) < 0"
      by linarith+
    then have "- 1 < \<lfloor>q\<rfloor> - n" "\<lfloor>q\<rfloor> - n < 0"
      by linarith+
    then show False
      by linarith
  qed
  with r show ?thesis
    by (simp add: roundEven_def)
qed

lemma roundEven_tie:
  assumes "q = real_of_int n + 1 / 2"
  shows "roundEven q = (if even n then n else n + 1)"
proof -
  have "\<lfloor>q\<rfloor> = n"
    unfolding assms by linarith
  moreover from this have "frac q = 1 / 2"
    using assms by (simp add: frac_def)
  ultimately show ?thesis
    by (simp add: roundEven_def)
qed

lemma ulpOf_binade:
  assumes "2 powr real_of_int k \<le> \<bar>r\<bar>" and "\<bar>r\<bar> < 2 powr real_of_int (k + 1)" and "- 1022 \<le> k"
  shows "ulpOf r = 2 powr real_of_int (k - 52)"
proof -
  have "0 < \<bar>r\<bar>"
    using assms(1) by (smt (verit) powr_gt_zero)
  then have "\<lfloor>log 2 \<bar>r\<bar>\<rfloor> = k"
    using assms(1,2) by (simp add: floor_log_eq_powr_iff)
  with assms(3) show ?thesis
    by (simp add: ulpOf_def max_def)
qed

lemma roundDouble_binade:
  assumes "2 powr real_of_int k \<le> \<bar>r\<bar>" and "\<bar>r\<bar> < 2 powr real_of_int (k + 1)" and "- 1022 \<le> k"
    and "roundEven (r / 2 powr real_of_int (k - 52)) = n"
    and "\<bar>real_of_int n * 2 powr real_of_int (k - 52)\<bar> < 2 ^ 1024"
  shows "roundDouble r = Fin (real_of_int n * 2 powr real_of_int (k - 52))"
proof -
  have "r \<noteq> 0"
    using assms(1) by (smt (verit) powr_gt_zero)
  then show ?thesis
    using assms(4,5) by (simp add: roundDouble_def ulpOf_binade [OF assms(1-3)] Let_def)
qed


lemma roundDouble_exact:
  assumes "m \<noteq> 0" and "\<bar>m\<bar> < 2 ^ 53" and "- 1074 \<le> j" and "j \<le> 970"
  shows "roundDouble (real_of_int m * 2 powr real_of_int j)
       = Fin (real_of_int m * 2 powr real_of_int j)"
proof -
  define r where "r = real_of_int m * 2 powr real_of_int j"
  define L where "L = \<lfloor>log 2 \<bar>r\<bar>\<rfloor>"
  define e where "e = max L (- 1022)"
  have abs_r: "\<bar>r\<bar> = real_of_int \<bar>m\<bar> * 2 powr real_of_int j"
    by (simp add: r_def abs_mult)
  have pos: "0 < \<bar>r\<bar>"
    using assms(1) by (simp add: r_def)
  have "real_of_int \<bar>m\<bar> < 2 ^ 53"
    using assms(2) by (metis of_int_less_numeral_power_cancel_iff)
  then have "\<bar>r\<bar> < 2 ^ 53 * 2 powr real_of_int j"
    unfolding abs_r by (intro mult_strict_right_mono) simp_all
  also have "\<dots> = 2 powr (53 + real_of_int j)"
    by (simp add: powr_add)
  finally have upper: "\<bar>r\<bar> < 2 powr (53 + real_of_int j)" .
  have "2 powr real_of_int L \<le> \<bar>r\<bar>"
    using floor_log_eq_powr_iff [of "\<bar>r\<bar>" 2 L] pos by (simp add: L_def)
  with upper have "2 powr real_of_int L < 2 powr (53 + real_of_int j)"
    by linarith
  then have "real_of_int L < 53 + real_of_int j"
    by simp
  then have "L \<le> j + 52"
    by linarith
  with assms(3) have e_le: "e \<le> j + 52"
    by (simp add: e_def)
  define d where "d = nat (j + 52 - e)"
  have "real_of_int j = real d + real_of_int (e - 52)"
    using e_le by (simp add: d_def)
  then have "2 powr real_of_int j = 2 powr real d * 2 powr real_of_int (e - 52)"
    by (metis powr_add)
  then have split: "2 powr real_of_int j = 2 ^ d * 2 powr real_of_int (e - 52)"
    by (simp add: powr_realpow)
  have ulp: "ulpOf r = 2 powr real_of_int (e - 52)"
    by (simp add: ulpOf_def e_def L_def)
  have rsplit: "r = real_of_int (m * 2 ^ d) * 2 powr real_of_int (e - 52)"
    by (simp add: r_def split)
  have "r / 2 powr real_of_int (e - 52) = real_of_int (m * 2 ^ d)"
    by (subst rsplit) simp
  then have "roundEven (r / ulpOf r) = m * 2 ^ d"
    by (simp only: ulp roundEven_of_int)
  then have "real_of_int (roundEven (r / ulpOf r)) * ulpOf r
      = real_of_int (m * 2 ^ d) * 2 powr real_of_int (e - 52)"
    by (simp only: ulp)
  also have "\<dots> = r"
    by (rule rsplit [symmetric])
  finally have same: "real_of_int (roundEven (r / ulpOf r)) * ulpOf r = r" .
  have "53 + real_of_int j \<le> 1023"
    using assms(4) by simp
  then have "2 powr (53 + real_of_int j) \<le> 2 powr 1023"
    by (intro powr_mono) simp_all
  also have "\<dots> < (2::real) ^ 1024"
    by simp
  finally have "\<bar>r\<bar> < 2 ^ 1024"
    using upper by linarith
  moreover have "r \<noteq> 0"
    using pos by simp
  ultimately have "roundDouble r = Fin r"
    by (simp add: roundDouble_def same Let_def)
  then show ?thesis
    by (simp add: r_def)
qed

lemma dbl_int:
  assumes "\<bar>m\<bar> < 2 ^ 53"
  shows "dbl (Fin (real_of_int m)) = Fin (real_of_int m)"
proof (cases "m = 0")
  case True
  then show ?thesis
    by (simp add: roundDouble_def)
next
  case False
  with roundDouble_exact [OF False assms, of 0] show ?thesis
    by simp
qed

lemma dbl_scaled:
  assumes "\<bar>m\<bar> < 2 ^ 53" and "k \<le> 1074"
  shows "dbl (Fin (real_of_int m / 2 ^ k)) = Fin (real_of_int m / 2 ^ k)"
proof (cases "m = 0")
  case True
  then show ?thesis
    by (simp add: roundDouble_def)
next
  case False
  have "(2::real) powr real_of_int (- int k) = 1 / 2 ^ k"
    by (simp add: powr_minus powr_realpow inverse_eq_divide)
  with roundDouble_exact [OF False assms(1), of "- int k"] assms(2) show ?thesis
    by simp
qed


lemma dbl_numeral:
  assumes "(numeral n :: int) < 2 ^ 53"
  shows "dbl (Fin (numeral n)) = Fin (numeral n)" "dbl (Fin (- numeral n)) = Fin (- numeral n)"
  using dbl_int [of "numeral n"] dbl_int [of "- numeral n"] assms by simp_all

lemma dbl_zero_one: "dbl (Fin 0) = Fin 0" "dbl (Fin 1) = Fin 1" "dbl (Fin (- 1)) = Fin (- 1)"
  using dbl_int [of 0] dbl_int [of 1] dbl_int [of "- 1"] by simp_all

section \<open>Normalization on doubles\<close>

text \<open>
  The trace of \<^verbatim>\<open>projectWords\<close> on the three words that share their first raw
  coordinate. The cosine similarity \<open>4 / 5\<close> is rounded to the double
  \<open>7205759403792794 / 2 ^ 53\<close>.
\<close>

lemma dbl_four_fifths:
  "dbl (Fin (4 / 5)) = Fin (7205759403792794 / 2 ^ 53)"
  "dbl (Fin (- (4 / 5))) = Fin (- (7205759403792794 / 2 ^ 53))"
proof -
  have near: "roundEven (4 / 5 / 2 powr real_of_int (- 1 - 52)) = 7205759403792794"
    "roundEven (- (4 / 5) / 2 powr real_of_int (- 1 - 52)) = - 7205759403792794"
    by (rule roundEven_near, simp add: powr_minus)+
  show "dbl (Fin (4 / 5)) = Fin (7205759403792794 / 2 ^ 53)"
    using roundDouble_binade [of "- 1" "4 / 5" 7205759403792794] near(1)
    by (simp add: powr_minus)
  show "dbl (Fin (- (4 / 5))) = Fin (- (7205759403792794 / 2 ^ 53))"
    using roundDouble_binade [of "- 1" "- (4 / 5)" "- 7205759403792794"] near(2)
    by (simp add: powr_minus)
qed


text \<open>The doubles of the trace that are their own rounding.\<close>

lemma dbl_exact_values:
  "dbl (Fin (3602879701896397 / 2251799813685248)) = Fin (3602879701896397 / 2251799813685248)"
  "dbl (Fin (3602879701896397 / 1125899906842624)) = Fin (3602879701896397 / 1125899906842624)"
  "dbl (Fin (- (1 / 4503599627370496))) = Fin (- (1 / 4503599627370496))"
  "dbl (Fin (1 / 4503599627370496)) = Fin (1 / 4503599627370496)"
  "dbl (Fin (1 / 20282409603651670423947251286016)) = Fin (1 / 20282409603651670423947251286016)"
  "dbl (Fin (1 / 10141204801825835211973625643008)) = Fin (1 / 10141204801825835211973625643008)"
  "dbl (Fin (3 / 20282409603651670423947251286016)) = Fin (3 / 20282409603651670423947251286016)"
  using dbl_scaled [of 3602879701896397 51] dbl_scaled [of 3602879701896397 50]
    dbl_scaled [of "- 1" 52] dbl_scaled [of 1 52] dbl_scaled [of 1 104] dbl_scaled [of 1 103]
    dbl_scaled [of 3 104]
  by simp_all

text \<open>
  The two roundings of the mean: three times the double of 1.6 lies halfway between two
  doubles, and a third of the double that it rounds to is not the double of 1.6.
\<close>

lemma dbl_three_times:
  "dbl (Fin (10808639105689191 / 2251799813685248)) = Fin (1351079888211149 / 281474976710656)"
proof -
  have "roundEven (10808639105689191 / 2251799813685248 / 2 powr real_of_int (2 - 52))
      = (if even (5404319552844595 :: int) then 5404319552844595 else 5404319552844595 + 1)"
    by (rule roundEven_tie) (simp add: powr_minus)
  then have "roundEven (10808639105689191 / 2251799813685248 / 2 powr real_of_int (2 - 52))
      = 5404319552844596"
    by simp
  with roundDouble_binade [of 2 "10808639105689191 / 2251799813685248" 5404319552844596]
  show ?thesis
    by (simp add: powr_minus)
qed

lemma dbl_third:
  "dbl (Fin (1351079888211149 / 844424930131968)) = Fin (7205759403792795 / 4503599627370496)"
proof -
  have "roundEven (1351079888211149 / 844424930131968 / 2 powr real_of_int (0 - 52))
      = 7205759403792795"
    by (rule roundEven_near) (simp add: powr_minus)
  with roundDouble_binade [of 0 "1351079888211149 / 844424930131968" 7205759403792795]
  show ?thesis
    by (simp add: powr_minus)
qed

lemma sqrt_values: "sqrt 25 = 5" "sqrt (1 / 20282409603651670423947251286016) = 1 / 4503599627370496"
  by (rule real_sqrt_unique; simp add: power2_eq_square)+

lemma cosineStepR_triple:
  "cosineStepR rnd a b i (d, m, k) =
    (rnd (jadd d (rnd (jmul (num_at a i) (num_at b i)))),
     rnd (jadd m (rnd (jmul (num_at a i) (num_at a i)))),
     rnd (jadd k (rnd (jmul (num_at b i) (num_at b i)))))"
  by (simp add: cosineStepR_def)

lemma shared_cosines:
  "cosineSimilarityR dbl [Fin 4, Fin 3, Fin 0] [Fin 1, Fin 0, Fin 0]
   = Fin (3602879701896397 / 4503599627370496)"
  "cosineSimilarityR dbl [Fin 4, Fin 0, Fin 3] [Fin 1, Fin 0, Fin 0]
   = Fin (3602879701896397 / 4503599627370496)"
  "cosineSimilarityR dbl [Fin 4, Fin (- 3), Fin 0] [Fin 1, Fin 0, Fin 0]
   = Fin (3602879701896397 / 4503599627370496)"
  "cosineSimilarityR dbl [Fin 4, Fin 3, Fin 0] [Fin (- 1), Fin 0, Fin 0]
   = Fin (- (3602879701896397 / 4503599627370496))"
  "cosineSimilarityR dbl [Fin 4, Fin 0, Fin 3] [Fin (- 1), Fin 0, Fin 0]
   = Fin (- (3602879701896397 / 4503599627370496))"
  "cosineSimilarityR dbl [Fin 4, Fin (- 3), Fin 0] [Fin (- 1), Fin 0, Fin 0]
   = Fin (- (3602879701896397 / 4503599627370496))"
  using dbl_four_fifths
  by (simp_all add: cosineSimilarityR_def cosineStepR_triple num_at_def jeq_def dbl_numeral
      dbl_zero_one sqrt_values del: dbl.simps)


text \<open>Without rounding the functions are the ones over the reals.\<close>

lemma cosineSimilarityR_exact: "cosineSimilarityR (\<lambda>v. v) a b = cosineSimilarity a b"
proof -
  have "cosineStepR (\<lambda>v. v) a b = cosineStep a b"
    by (intro ext) (simp add: cosineStepR_def cosineStep_def)
  then show ?thesis
    by (simp add: cosineSimilarityR_def cosineSimilarity_def)
qed

lemma rawPositionR_exact: "rawPositionR (\<lambda>v. v) vocab axisVectors idx = rawPosition vocab axisVectors idx"
  by (simp add: rawPositionR_def rawPosition_def axisDiffR_def axisDiff_def cosineSimilarityR_exact)

lemma stddevR_exact: "stddevR (\<lambda>v. v) values = stddev values"
proof -
  have "(\<lambda>a b. jadd a b) = jadd"
    by (intro ext) simp
  then have "stddev_meanR (\<lambda>v. v) values = stddev_mean values"
    by (simp add: stddev_meanR_def stddev_mean_def)
  then show ?thesis
    by (simp add: stddevR_def stddev_def stddev_varianceR_def stddev_variance_def)
qed

lemma projectWordsR_exact:
  "projectWordsR (\<lambda>v. v) vocab axisVectors selectedIndices scale
   = projectWords vocab axisVectors selectedIndices scale"
proof -
  have "rawPositionR (\<lambda>v. v) vocab axisVectors = rawPosition vocab axisVectors"
    by (intro ext) (rule rawPositionR_exact)
  moreover have "normalizeWordR (\<lambda>v. v) = normalizeWord"
    by (intro ext) (simp add: normalizeWordR_def normalizeWord_def)
  ultimately show ?thesis
    by (simp add: projectWordsR_def projectWords_def stddevR_exact)
qed

lemma projectWordsR_x:
  "map x (projectWordsR rnd vocab axisVectors sel scale)
   = map (\<lambda>v. rnd (jmul (rnd (jdiv v (stddevR rnd (map x (map (rawPositionR rnd vocab axisVectors) sel)))))
                        scale))
       (map x (map (rawPositionR rnd vocab axisVectors) sel))"
  by (simp add: projectWordsR_def Let_def normalizeWordR_def comp_def)

text \<open>The three words have the same first raw coordinate, the double of 1.6.\<close>

lemma shared_raw_x:
  "map x (map (rawPositionR dbl sharedVocab unitAxes) [0, 1, 2])
   = [Fin (3602879701896397 / 2251799813685248), Fin (3602879701896397 / 2251799813685248),
      Fin (3602879701896397 / 2251799813685248)]"
  by (simp add: rawPositionR_def Let_def sharedVocab_def unitAxes_def getVector_def axisDiffR_def
      shared_cosines jsub_def dbl_exact_values del: dbl.simps)

lemma shared_mean:
  "stddev_meanR dbl
     [Fin (3602879701896397 / 2251799813685248), Fin (3602879701896397 / 2251799813685248),
      Fin (3602879701896397 / 2251799813685248)]
   = Fin (7205759403792795 / 4503599627370496)"
  by (simp add: stddev_meanR_def dbl_exact_values dbl_three_times dbl_third del: dbl.simps)

lemma shared_variance:
  "stddev_varianceR dbl
     [Fin (3602879701896397 / 2251799813685248), Fin (3602879701896397 / 2251799813685248),
      Fin (3602879701896397 / 2251799813685248)]
   = Fin (1 / 20282409603651670423947251286016)"
  by (simp add: stddev_varianceR_def shared_mean jsub_def jsquare_def dbl_exact_values
      del: dbl.simps)

lemma shared_stddev:
  "stddevR dbl
     [Fin (3602879701896397 / 2251799813685248), Fin (3602879701896397 / 2251799813685248),
      Fin (3602879701896397 / 2251799813685248)]
   = Fin (1 / 4503599627370496)"
  by (simp add: stddevR_def shared_variance sqrt_values dbl_exact_values jor_def truthy_def
      del: dbl.simps)

text \<open>Over the reals the deviation of the three coordinates is 0, and 1 is taken instead.\<close>

lemma shared_stddev_exact:
  "stddev (map x (map (rawPosition sharedVocab unitAxes) [0, 1, 2])) = Fin 1"
proof -
  have cos:
    "cosineSimilarity [Fin 4, Fin 3, Fin 0] [Fin 1, Fin 0, Fin 0] = Fin (4 / 5)"
    "cosineSimilarity [Fin 4, Fin 0, Fin 3] [Fin 1, Fin 0, Fin 0] = Fin (4 / 5)"
    "cosineSimilarity [Fin 4, Fin (- 3), Fin 0] [Fin 1, Fin 0, Fin 0] = Fin (4 / 5)"
    "cosineSimilarity [Fin 4, Fin 3, Fin 0] [Fin (- 1), Fin 0, Fin 0] = Fin (- (4 / 5))"
    "cosineSimilarity [Fin 4, Fin 0, Fin 3] [Fin (- 1), Fin 0, Fin 0] = Fin (- (4 / 5))"
    "cosineSimilarity [Fin 4, Fin (- 3), Fin 0] [Fin (- 1), Fin 0, Fin 0] = Fin (- (4 / 5))"
    using sqrt_values(1)
    by (simp_all add: cosineSimilarity_def cosineStep_triple num_at_def jeq_def)
  have raw: "map x (map (rawPosition sharedVocab unitAxes) [0, 1, 2])
      = [Fin (8 / 5), Fin (8 / 5), Fin (8 / 5)]"
    by (simp add: rawPosition_def Let_def sharedVocab_def unitAxes_def getVector_def axisDiff_def
        cos jsub_def)
  show ?thesis
    unfolding raw
    by (simp add: stddev_def stddev_variance_def stddev_mean_def jsquare_def jsub_def
        jor_def truthy_def)
qed

lemma shared_exact:
  "map x (projectWords sharedVocab unitAxes [0, 1, 2] (Fin 1)) = [Fin (8 / 5), Fin (8 / 5), Fin (8 / 5)]"
proof -
  have "sqrt 25 = 5"
    by (rule real_sqrt_unique; simp)
  then have cos:
    "cosineSimilarity [Fin 4, Fin 3, Fin 0] [Fin 1, Fin 0, Fin 0] = Fin (4 / 5)"
    "cosineSimilarity [Fin 4, Fin 0, Fin 3] [Fin 1, Fin 0, Fin 0] = Fin (4 / 5)"
    "cosineSimilarity [Fin 4, Fin (- 3), Fin 0] [Fin 1, Fin 0, Fin 0] = Fin (4 / 5)"
    "cosineSimilarity [Fin 4, Fin 3, Fin 0] [Fin (- 1), Fin 0, Fin 0] = Fin (- (4 / 5))"
    "cosineSimilarity [Fin 4, Fin 0, Fin 3] [Fin (- 1), Fin 0, Fin 0] = Fin (- (4 / 5))"
    "cosineSimilarity [Fin 4, Fin (- 3), Fin 0] [Fin (- 1), Fin 0, Fin 0] = Fin (- (4 / 5))"
    by (simp_all add: cosineSimilarity_def cosineStep_triple num_at_def jeq_def)
  have raw: "map x (map (rawPosition sharedVocab unitAxes) [0, 1, 2])
      = [Fin (8 / 5), Fin (8 / 5), Fin (8 / 5)]"
    by (simp add: rawPosition_def Let_def sharedVocab_def unitAxes_def getVector_def axisDiff_def
        cos jsub_def)
  have "stddev [Fin (8 / 5), Fin (8 / 5), Fin (8 / 5)] = Fin 1"
    by (simp add: stddev_def stddev_variance_def stddev_mean_def jsquare_def jsub_def
        jor_def truthy_def)
  then show ?thesis
    unfolding projectWords_coordinates raw by simp
qed

text \<open>
  C5 fails of the program at three words that share their first raw coordinate, so that
  the first axis has no spread. The three raw coordinates are the double of 1.6. Their
  sum is rounded, and a third of it is rounded to the mean, which is the next double
  above the double of 1.6. Each deviation from it is \<open>- 1 / 2 ^ 52\<close>, the variance
  is \<open>1 / 2 ^ 104\<close>, and its square root \<open>1 / 2 ^ 52\<close> is not 0, so
  \<^verbatim>\<open>|| 1\<close> does not replace it: the axis is not treated as having the standard
  deviation 1, and the division takes each first coordinate from 1.6 to
  7205759403792794. Over the reals the deviation is 0, \<^verbatim>\<open>stddev\<close> gives 1 and
  the coordinates stay at \<open>8 / 5\<close>, as the claim has it.
\<close>

theorem shared_coordinate_blows_up:
  "map x (map (rawPositionR dbl sharedVocab unitAxes) [0, 1, 2])
   = [Fin (3602879701896397 / 2251799813685248), Fin (3602879701896397 / 2251799813685248),
      Fin (3602879701896397 / 2251799813685248)]
   \<and> allIdentical (map x (map (rawPositionR dbl sharedVocab unitAxes) [0, 1, 2]))
   \<and> stddev_meanR dbl (map x (map (rawPositionR dbl sharedVocab unitAxes) [0, 1, 2]))
     = Fin (7205759403792795 / 4503599627370496)
   \<and> stddevR dbl (map x (map (rawPositionR dbl sharedVocab unitAxes) [0, 1, 2]))
     = Fin (1 / 2 ^ 52)
   \<and> map x (projectWordsR dbl sharedVocab unitAxes [0, 1, 2] (Fin 1))
     = [Fin 7205759403792794, Fin 7205759403792794, Fin 7205759403792794]
   \<and> stddev (map x (map (rawPosition sharedVocab unitAxes) [0, 1, 2])) = Fin 1
   \<and> map x (projectWords sharedVocab unitAxes [0, 1, 2] (Fin 1))
     = [Fin (8 / 5), Fin (8 / 5), Fin (8 / 5)]"
  unfolding projectWordsR_x shared_raw_x shared_stddev shared_mean shared_stddev_exact shared_exact
  by (simp add: allIdentical_def dbl_numeral dbl_zero_one del: dbl.simps)

section \<open>Magnitude and scale\<close>













end
